theory Spec2Isabelle
  imports Main "HOL-Library.Sublist" "HOL-Library.AList"
begin

section \<open>Client local queue: text previews\<close>

text \<open>
  Strings are modelled as \<^typ>\<open>string\<close>; one \<^typ>\<open>char\<close> stands for one code unit of
  the source's string type. The source's \<^verbatim>\<open>indexOf\<close> answers \<open>-1\<close> when the pattern
  does not occur, so indices are \<^typ>\<open>int\<close>.
\<close>

text \<open>
  \<^verbatim>\<open>text.indexOf(pat, pos)\<close>: the first index at or after \<open>pos\<close> (clamped to the
  length) where \<open>pat\<close> occurs. \<open>indexOf_scan pat rest i\<close> searches \<open>rest\<close>, which
  starts at index \<open>i\<close> of the text.
\<close>

fun indexOf_scan :: "string \<Rightarrow> string \<Rightarrow> nat \<Rightarrow> int" where
  "indexOf_scan pat [] i = (if pat = [] then int i else - 1)"
| "indexOf_scan pat (c # cs) i =
     (if prefix pat (c # cs) then int i else indexOf_scan pat cs (Suc i))"

definition indexOf :: "string \<Rightarrow> string \<Rightarrow> nat \<Rightarrow> int" where
  "indexOf text pat pos =
     (let p = min pos (length text) in indexOf_scan pat (drop p text) p)"

text \<open>\<^verbatim>\<open>Math.max(...points)\<close>; the source calls it on a non-empty list only.\<close>

fun math_max :: "int list \<Rightarrow> int" where
  "math_max [] = - 1"
| "math_max [x] = x"
| "math_max (x # y # ys) = max x (math_max (y # ys))"

text \<open>\<^verbatim>\<open>text.substring(0, e)\<close>\<close>

definition substring0 :: "string \<Rightarrow> int \<Rightarrow> string" where
  "substring0 text e = take (nat e) text"

text \<open>
  \<^verbatim>\<open>generateTextPreview(text, maxLength)\<close>; \<^verbatim>\<open>maxLength / 2\<close> as a start index is cut to
  an integer by \<^verbatim>\<open>indexOf\<close>.
\<close>

definition generateTextPreview :: "string \<Rightarrow> nat \<Rightarrow> string" where
  "generateTextPreview text maxLength =
     (if text = [] \<or> length text \<le> maxLength then text
      else
        let breakPoints =
              filter (\<lambda>point. point \<noteq> - 1 \<and> point < int maxLength)
                [indexOf text [CHR 0x0A, CHR 0x0A] (maxLength div 2),
                 indexOf text ''. '' (maxLength div 2),
                 indexOf text ''? '' (maxLength div 2),
                 indexOf text ''! '' (maxLength div 2)];
            breakPoint =
              (if length breakPoints \<noteq> 0 then math_max breakPoints + 1 else int maxLength)
        in substring0 text breakPoint @ ''...'')"

record shared_file =
  sf_uri :: "string option"
  sf_mimeType :: "string option"
  sf_name :: "string option"
  sf_text :: "string option"

datatype preview_type = PreviewText | PreviewImage | PreviewOther

record preview =
  previewText :: "string option"
  thumbnailUri :: "string option"
  previewType :: preview_type

text \<open>
  A value of type \<open>string | null | undefined\<close> is truthy when it is present and
  not the empty string.
\<close>

fun truthy :: "string option \<Rightarrow> bool" where
  "truthy None = False"
| "truthy (Some s) = (s \<noteq> [])"

text \<open>
  \<^verbatim>\<open>generatePreview(file, localId)\<close>. The thumbnail copy is the only step that touches
  the device; \<open>copy_ok\<close> says whether it succeeds (a failure is caught and logged, and
  the function falls through to the last case). \<open>previewsDir\<close> is the directory string
  built from the document directory.
\<close>

definition generatePreview :: "string \<Rightarrow> bool \<Rightarrow> shared_file \<Rightarrow> string \<Rightarrow> preview" where
  "generatePreview previewsDir copy_ok file localId =
     (if truthy (sf_text file) then
        \<lparr>previewText = Some (generateTextPreview (the (sf_text file)) 150),
         thumbnailUri = None, previewType = PreviewText\<rparr>
      else if truthy (sf_uri file) \<and>
              (case sf_mimeType file of None \<Rightarrow> False | Some m \<Rightarrow> prefix ''image/'' m) \<and>
              copy_ok then
        \<lparr>previewText = None,
         thumbnailUri = Some (previewsDir @ localId @ ''-thumb.jpg''),
         previewType = PreviewImage\<rparr>
      else
        \<lparr>previewText = Some (if truthy (sf_name file) then the (sf_name file) else ''File''),
         thumbnailUri = None, previewType = PreviewOther\<rparr>)"

section \<open>String helpers of the worker\<close>

text \<open>
  \<^verbatim>\<open>x || d\<close> on strings; \<^verbatim>\<open>toLowerCase\<close> on the letters A to Z (MIME types are ASCII);
  \<^verbatim>\<open>trim\<close>, \<^verbatim>\<open>includes\<close>, \<^verbatim>\<open>split\<close> on one character, \<^verbatim>\<open>join\<close>, \<^verbatim>\<open>findIndex\<close>
  (\<open>-1\<close> when nothing is found) and the decimal rendering of a number.
\<close>

fun or_default :: "string option \<Rightarrow> string \<Rightarrow> string" where
  "or_default None d = d"
| "or_default (Some s) d = (if s = [] then d else s)"

definition lower_char :: "char \<Rightarrow> char" where
  "lower_char c =
     (case map_of (zip ''ABCDEFGHIJKLMNOPQRSTUVWXYZ'' ''abcdefghijklmnopqrstuvwxyz'') c of
        Some l \<Rightarrow> l
      | None \<Rightarrow> c)"

definition toLowerCase :: "string \<Rightarrow> string" where
  "toLowerCase s = map lower_char s"

definition is_js_space :: "char \<Rightarrow> bool" where
  "is_js_space c =
     (c \<in> set [CHR 0x09, CHR 0x0A, CHR 0x0B, CHR 0x0C, CHR 0x0D, CHR 0x20, CHR 0xA0])"

definition js_trim :: "string \<Rightarrow> string" where
  "js_trim s = rev (dropWhile is_js_space (rev (dropWhile is_js_space s)))"

definition js_includes :: "string \<Rightarrow> string \<Rightarrow> bool" where
  "js_includes s pat = (indexOf s pat 0 \<noteq> - 1)"

fun split_on :: "char \<Rightarrow> string \<Rightarrow> string list" where
  "split_on sep [] = [[]]"
| "split_on sep (c # cs) =
     (if c = sep then [] # split_on sep cs
      else (case split_on sep cs of p # ps \<Rightarrow> (c # p) # ps | [] \<Rightarrow> [[c]]))"

fun join_with :: "string \<Rightarrow> string list \<Rightarrow> string" where
  "join_with sep [] = []"
| "join_with sep [x] = x"
| "join_with sep (x # y # ys) = x @ sep @ join_with sep (y # ys)"

fun findIndex_from :: "('a \<Rightarrow> bool) \<Rightarrow> 'a list \<Rightarrow> nat \<Rightarrow> int" where
  "findIndex_from P [] i = - 1"
| "findIndex_from P (x # xs) i = (if P x then int i else findIndex_from P xs (Suc i))"

definition findIndex :: "('a \<Rightarrow> bool) \<Rightarrow> 'a list \<Rightarrow> int" where
  "findIndex P xs = findIndex_from P xs 0"

definition digit_char :: "nat \<Rightarrow> char" where
  "digit_char d = ''0123456789'' ! d"

function show_nat :: "nat \<Rightarrow> string" where
  "show_nat n = (if n < 10 then [digit_char n] else show_nat (n div 10) @ [digit_char (n mod 10)])"
  by pat_completeness auto
termination
  by (relation "measure (\<lambda>n. n)") auto

declare show_nat.simps [simp del]

section \<open>Batch worker: data model\<close>

datatype upload_status = Pending | Processing | Completed | Error

record uploaded_file =
  fileId :: nat
  userId :: string
  r2Key :: "string option"
  blobUrl :: string
  originalName :: string
  fileType :: string
  processType :: "string option"
  status :: upload_status
  textContent :: "string option"
  generatedImageUrl :: "string option"
  tokensUsed :: nat
  error :: "string option"
  updatedAt :: nat

text \<open>What \<^verbatim>\<open>processSingleFileRecord\<close> returns.\<close>

record file_result =
  res_status :: upload_status
  res_textContent :: "string option"
  res_generatedImageUrl :: "string option"
  res_tokensUsed :: nat
  res_error :: "string option"

text \<open>
  Thrown values. The handlers of the source look at three shapes: an instance of
  \<^verbatim>\<open>Error\<close> with its message; another object, with its own \<^verbatim>\<open>message\<close> property (if
  present, as a string) and the message of a nested \<^verbatim>\<open>error\<close> object (if present); and
  a primitive, given by its string rendering.
\<close>

datatype thrown = ErrorObj string | PlainObj "string option" "string option" | Prim string

text \<open>\<^verbatim>\<open>error instanceof Error ? error.message : String(error)\<close>\<close>

fun message_or_string :: "thrown \<Rightarrow> string" where
  "message_or_string (ErrorObj m) = m"
| "message_or_string (PlainObj m n) = ''[object Object]''"
| "message_or_string (Prim s) = s"

type_synonym buffer = "nat list"

datatype db_operation = SelectQuery | ClaimWrite | CommitWrite | FallbackWrite

text \<open>
  The external collaborators of the worker: object store, text and image models, the
  temporary file, the path library, clock and randomness, the database driver's faults
  and the metering service's faults. Each is a function of the world, so that a run of
  the worker is a pure function of the world and the state it starts from.
  \<open>r2_object\<close> is what fetching a key yields (\<open>None\<close> when the request fails or has no
  body); \<open>generateObject\<close> gives the markdown and the reported total of tokens, if any;
  \<open>stage_temp_image\<close> stands for writing the temporary copy and preparing it for the
  image model; \<open>images_edit\<close> gives the \<open>b64_json\<close> of the first image, if any;
  \<open>date_now\<close> is the clock's reading as text and \<open>new_Date\<close> as a timestamp.
\<close>

record world =
  r2_object :: "string \<Rightarrow> buffer option"
  r2_put :: "string \<Rightarrow> buffer \<Rightarrow> thrown option"
  utf8_decode :: "buffer \<Rightarrow> string"
  base64_decode :: "string \<Rightarrow> buffer"
  generateObject :: "string \<Rightarrow> thrown + string \<times> nat option"
  stage_temp_image :: "string \<Rightarrow> buffer \<Rightarrow> thrown option"
  images_edit :: "string \<Rightarrow> thrown + string option"
  path_basename :: "string \<Rightarrow> string"
  path_basename_ext :: "string \<Rightarrow> string \<Rightarrow> string"
  path_extname :: "string \<Rightarrow> string"
  tmpdir :: string
  date_now :: string
  random_hex :: string
  R2_PUBLIC_URL :: string
  CRON_SECRET :: "string option"
  new_Date :: nat
  db_fault :: "db_operation \<Rightarrow> nat \<Rightarrow> thrown option"
  meter_fault :: "string \<Rightarrow> nat \<Rightarrow> thrown option"

section \<open>Batch worker: object store and models\<close>

definition downloadFromR2 :: "world \<Rightarrow> string \<Rightarrow> thrown + buffer" where
  "downloadFromR2 w key =
     (case r2_object w key of
        None \<Rightarrow> Inl (ErrorObj (''Failed to download file from R2: '' @ key))
      | Some body \<Rightarrow> Inr body)"

definition uploadToR2 :: "world \<Rightarrow> string \<Rightarrow> buffer \<Rightarrow> thrown option" where
  "uploadToR2 w key body =
     (case r2_put w key body of
        Some e \<Rightarrow> Some (ErrorObj (''Failed to upload file to R2: '' @ key))
      | None \<Rightarrow> None)"

definition processImageWithGPT4one :: "world \<Rightarrow> string \<Rightarrow> string \<times> nat" where
  "processImageWithGPT4one w imageUrl =
     (case generateObject w imageUrl of
        Inr (markdown, usage) \<Rightarrow>
          (markdown, (case usage of Some t \<Rightarrow> t | None \<Rightarrow> (length markdown + 3) div 4))
      | Inl e \<Rightarrow> (''Error processing image OCR: '' @ message_or_string e, 0))"

record diagram_result =
  md_generatedImageUrl :: string
  md_tokensUsed :: nat
  md_error :: "string option"

text \<open>The \<^verbatim>\<open>catch\<close> block of \<^verbatim>\<open>processMagicDiagram\<close>.\<close>

fun diagram_error_message :: "thrown \<Rightarrow> string" where
  "diagram_error_message (PlainObj (Some m) n) = m"
| "diagram_error_message (ErrorObj m) = m"
| "diagram_error_message (PlainObj None (Some n)) =
     (if n \<noteq> [] then n else ''Unknown error generating diagram image'')"
| "diagram_error_message (PlainObj None None) = ''Unknown error generating diagram image''"
| "diagram_error_message (Prim s) = ''Unknown error generating diagram image''"

definition diagram_failed :: "thrown \<Rightarrow> diagram_result" where
  "diagram_failed e =
     \<lparr>md_generatedImageUrl = [], md_tokensUsed = 0,
      md_error = Some (''Error generating diagram: '' @ diagram_error_message e)\<rparr>"

text \<open>
  \<^verbatim>\<open>processMagicDiagram(r2Key, originalFileName, userId)\<close>. The temporary copy is removed
  in the \<^verbatim>\<open>finally\<close> block on every path; its removal does not change the result.
\<close>

definition processMagicDiagram :: "world \<Rightarrow> string \<Rightarrow> string \<Rightarrow> string \<Rightarrow> diagram_result" where
  "processMagicDiagram w key originalFileName uid =
     (case downloadFromR2 w key of
        Inl e \<Rightarrow> diagram_failed e
      | Inr originalImageBuffer \<Rightarrow>
          (let safeFileName = path_basename w originalFileName;
               extension = (if path_extname w safeFileName = [] then ''.png''
                            else path_extname w safeFileName);
               tempImagePath = tmpdir w @ ''/'' @ date_now w @ ''-'' @
                               path_basename_ext w safeFileName extension @ extension;
               generationPrompt =
                 ''Digitize this sketch image into a clean, well-rendered diagram suitable for digital files. Preserve the core elements and connections shown in the sketch. Original filename for context: ''
                 @ originalFileName @ ''.''
           in case stage_temp_image w tempImagePath originalImageBuffer of
                Some e \<Rightarrow> diagram_failed e
              | None \<Rightarrow>
                  (case images_edit w generationPrompt of
                     Inl e \<Rightarrow> diagram_failed e
                   | Inr imageBase64 \<Rightarrow>
                       if \<not> truthy imageBase64 then
                         diagram_failed (ErrorObj
                           ''Image generation failed, no b64_json returned in the response.'')
                       else
                         (let generatedImageBuffer = base64_decode w (or_default imageBase64 []);
                              generatedR2Key =
                                ''generated/'' @ uid @ ''/'' @ date_now w @ ''-'' @ random_hex w
                                @ ''-'' @ path_basename_ext w originalFileName extension @ ''.png''
                          in case uploadToR2 w generatedR2Key generatedImageBuffer of
                               Some e \<Rightarrow> diagram_failed e
                             | None \<Rightarrow>
                                 \<lparr>md_generatedImageUrl = R2_PUBLIC_URL w @ ''/'' @ generatedR2Key,
                                  md_tokensUsed = 5000, md_error = None\<rparr>))))"

section \<open>Batch worker: processing one record\<close>

text \<open>
  The object key: the stored one, or the part of the public URL from its \<open>uploads\<close>
  segment on. Both early returns of the source are the \<open>Inl\<close> results.
\<close>

definition determine_r2Key :: "uploaded_file \<Rightarrow> file_result + string" where
  "determine_r2Key fr =
     (if truthy (r2Key fr) then Inr (or_default (r2Key fr) [])
      else
        let urlParts = split_on CHR ''/'' (blobUrl fr);
            uploadSegmentIndex = findIndex (\<lambda>part. part = ''uploads'') urlParts
        in if uploadSegmentIndex \<noteq> - 1 \<and> uploadSegmentIndex < int (length urlParts) - 1 then
             (let derived = join_with ''/'' (drop (nat uploadSegmentIndex) urlParts)
              in if derived = [] then
                   Inl \<lparr>res_status = Error, res_textContent = None,
                        res_generatedImageUrl = None, res_tokensUsed = 0,
                        res_error = Some (''Missing R2 key for file ID '' @ show_nat (fileId fr))\<rparr>
                 else Inr derived)
           else
             Inl \<lparr>res_status = Error, res_textContent = None,
                  res_generatedImageUrl = None, res_tokensUsed = 0,
                  res_error = Some (''Could not determine R2 key from blobUrl: '' @ blobUrl fr)\<rparr>)"

text \<open>The local variables of \<^verbatim>\<open>processSingleFileRecord\<close> when its \<^verbatim>\<open>try\<close> block ends.\<close>

record locals =
  v_textContent :: "string option"
  v_generatedImageUrl :: "string option"
  v_tokensUsed :: nat
  v_processingError :: "string option"

definition is_magic_diagram :: "string \<Rightarrow> string \<Rightarrow> bool" where
  "is_magic_diagram pt ft = (pt = ''magic-diagram'' \<and> prefix ''image/'' ft)"

definition is_standard_ocr :: "string \<Rightarrow> string \<Rightarrow> bool" where
  "is_standard_ocr pt ft = (pt = ''standard-ocr'' \<and> prefix ''image/'' ft)"

definition is_pdf :: "string \<Rightarrow> bool" where
  "is_pdf ft = (ft = ''application/pdf'' \<or> js_includes ft ''pdf'')"

definition is_plain_text :: "string \<Rightarrow> bool" where
  "is_plain_text ft = (ft = ''text/plain'' \<or> ft = ''text/markdown'')"

definition effective_processType :: "uploaded_file \<Rightarrow> string" where
  "effective_processType fr = or_default (processType fr) ''standard-ocr''"

text \<open>The \<^verbatim>\<open>try\<close> block: \<open>Inl\<close> is an exception that reaches the \<^verbatim>\<open>catch\<close>.\<close>

definition run_strategy :: "world \<Rightarrow> uploaded_file \<Rightarrow> string \<Rightarrow> thrown + locals" where
  "run_strategy w fr key =
     (let pt = effective_processType fr;
          ft = toLowerCase (fileType fr)
      in if is_magic_diagram pt ft then
           (let result = processMagicDiagram w key (originalName fr) (userId fr)
            in if truthy (md_error result) then
                 Inr \<lparr>v_textContent =
                        Some (''[Error generating diagram: '' @ or_default (md_error result) [] @ '']''),
                      v_generatedImageUrl = None, v_tokensUsed = 0,
                      v_processingError = md_error result\<rparr>
               else
                 Inr \<lparr>v_textContent =
                        Some (''[Generated Diagram Image]('' @ md_generatedImageUrl result @ '')''),
                      v_generatedImageUrl = Some (md_generatedImageUrl result),
                      v_tokensUsed = md_tokensUsed result,
                      v_processingError = None\<rparr>)
         else if is_standard_ocr pt ft then
           (if blobUrl fr = [] then
              Inl (ErrorObj (''Missing blobUrl for OCR processing of file ID '' @ show_nat (fileId fr)))
            else
              (case processImageWithGPT4one w (blobUrl fr) of
                 (text, tokens) \<Rightarrow>
                   if prefix ''Error processing image OCR'' text then
                     Inr \<lparr>v_textContent = None, v_generatedImageUrl = None,
                          v_tokensUsed = tokens, v_processingError = Some text\<rparr>
                   else if text = [] \<or> js_trim text = [] then
                     Inr \<lparr>v_textContent = Some ''[OCR completed, but no text extracted]'',
                          v_generatedImageUrl = None, v_tokensUsed = tokens,
                          v_processingError = None\<rparr>
                   else
                     Inr \<lparr>v_textContent = Some text, v_generatedImageUrl = None,
                          v_tokensUsed = tokens, v_processingError = None\<rparr>))
         else if is_pdf ft then
           Inr \<lparr>v_textContent = Some ''[PDF Content - Processing Pending Implementation]'',
                v_generatedImageUrl = None, v_tokensUsed = 0,
                v_processingError = Some ''PDF processing not yet implemented.''\<rparr>
         else if is_plain_text ft then
           (case downloadFromR2 w key of
              Inl e \<Rightarrow> Inl e
            | Inr buf \<Rightarrow>
                Inr \<lparr>v_textContent = Some (utf8_decode w buf), v_generatedImageUrl = None,
                     v_tokensUsed = 0, v_processingError = None\<rparr>)
         else
           Inr \<lparr>v_textContent = Some (''[Unsupported: '' @ ft @ '']''),
                v_generatedImageUrl = None, v_tokensUsed = 0,
                v_processingError =
                  Some (''Unsupported file type/processType: '' @ ft @ '' / '' @ pt)\<rparr>)"

text \<open>The \<^verbatim>\<open>catch\<close> block.\<close>

fun caught :: "thrown \<Rightarrow> locals" where
  "caught (ErrorObj m) =
     \<lparr>v_textContent = None, v_generatedImageUrl = None, v_tokensUsed = 0,
      v_processingError = Some m\<rparr>"
| "caught e =
     \<lparr>v_textContent = None, v_generatedImageUrl = None, v_tokensUsed = 0,
      v_processingError = Some ''Unknown processing error''\<rparr>"

text \<open>The statements after the \<^verbatim>\<open>try\<close>/\<^verbatim>\<open>catch\<close>: the final status and the returned object.\<close>

definition finish :: "locals \<Rightarrow> file_result" where
  "finish v =
     \<lparr>res_status = (if truthy (v_processingError v) then Error else Completed),
      res_textContent =
        (if truthy (v_processingError v)
         then Some (''[Processing Error: '' @ or_default (v_processingError v) [] @ '']'')
         else v_textContent v),
      res_generatedImageUrl = v_generatedImageUrl v,
      res_tokensUsed = v_tokensUsed v,
      res_error = v_processingError v\<rparr>"

definition processSingleFileRecord :: "world \<Rightarrow> uploaded_file \<Rightarrow> file_result" where
  "processSingleFileRecord w fr =
     (case determine_r2Key fr of
        Inl early \<Rightarrow> early
      | Inr key \<Rightarrow>
          (case run_strategy w fr key of
             Inr v \<Rightarrow> finish v
           | Inl e \<Rightarrow> finish (caught e)))"

section \<open>Batch worker: the run\<close>

text \<open>
  The store is the table of upload records; an update changes every row with the given
  id and none if there is no such row. \<open>meter_calls\<close> lists the invocations of
  \<^verbatim>\<open>incrementAndLogTokenUsage\<close> in order.
\<close>

record run_state =
  db :: "uploaded_file list"
  meter_calls :: "(string \<times> nat) list"
  processedCount :: nat
  errorCount :: nat

definition update_where_id :: "nat \<Rightarrow> (uploaded_file \<Rightarrow> uploaded_file) \<Rightarrow> uploaded_file list \<Rightarrow> uploaded_file list" where
  "update_where_id fid f d = map (\<lambda>r. if fileId r = fid then f r else r) d"

text \<open>
  \<^verbatim>\<open>incrementAndLogTokenUsage\<close> is imported from a module that is not among the sources;
  it is a parameter: the world says whether a call fails, and the state records the call.
\<close>

definition incrementAndLogTokenUsage :: "world \<Rightarrow> string \<Rightarrow> nat \<Rightarrow> run_state \<Rightarrow> thrown option \<times> run_state" where
  "incrementAndLogTokenUsage w uid tokens s =
     (meter_fault w uid tokens, s\<lparr>meter_calls := meter_calls s @ [(uid, tokens)]\<rparr>)"

text \<open>Step 3 of the loop body, the claim.\<close>

definition claim_step :: "world \<Rightarrow> uploaded_file \<Rightarrow> uploaded_file list \<Rightarrow> thrown + uploaded_file list" where
  "claim_step w fileRecord d =
     (if status fileRecord \<noteq> Processing then
        (case db_fault w ClaimWrite (fileId fileRecord) of
           Some e \<Rightarrow> Inl e
         | None \<Rightarrow>
             Inr (update_where_id (fileId fileRecord)
                    (\<lambda>r. r\<lparr>status := Processing, updatedAt := new_Date w, error := None\<rparr>) d))
      else Inr d)"

text \<open>Step 4, the write of the result.\<close>

definition commit_step :: "world \<Rightarrow> uploaded_file \<Rightarrow> file_result \<Rightarrow> uploaded_file list \<Rightarrow> thrown + uploaded_file list" where
  "commit_step w fileRecord result d =
     (case db_fault w CommitWrite (fileId fileRecord) of
        Some e \<Rightarrow> Inl e
      | None \<Rightarrow>
          Inr (update_where_id (fileId fileRecord)
                 (\<lambda>r. r\<lparr>status := res_status result,
                        textContent := res_textContent result,
                        generatedImageUrl := res_generatedImageUrl result,
                        tokensUsed := res_tokensUsed result,
                        error := res_error result,
                        updatedAt := new_Date w\<rparr>) d))"

text \<open>Step 5, counting and metering.\<close>

definition account_step :: "world \<Rightarrow> uploaded_file \<Rightarrow> file_result \<Rightarrow> run_state \<Rightarrow> run_state" where
  "account_step w fileRecord result s =
     (if res_status result = Completed \<and> res_tokensUsed result > 0 then
        snd (incrementAndLogTokenUsage w (userId fileRecord) (res_tokensUsed result)
               (s\<lparr>processedCount := processedCount s + 1\<rparr>))
      else if res_status result = Error then s\<lparr>errorCount := errorCount s + 1\<rparr>
      else s\<lparr>processedCount := processedCount s + 1\<rparr>)"

text \<open>
  The inner \<^verbatim>\<open>try\<close> block of the loop: the exception that leaves it, if any, and the state
  reached at that point.
\<close>

definition try_record :: "world \<Rightarrow> uploaded_file \<Rightarrow> run_state \<Rightarrow> thrown option \<times> run_state" where
  "try_record w fileRecord s =
     (case claim_step w fileRecord (db s) of
        Inl e \<Rightarrow> (Some e, s)
      | Inr d1 \<Rightarrow>
          (let result = processSingleFileRecord w fileRecord
           in case commit_step w fileRecord result d1 of
                Inl e \<Rightarrow> (Some e, s\<lparr>db := d1\<rparr>)
              | Inr d2 \<Rightarrow> (None, account_step w fileRecord result (s\<lparr>db := d2\<rparr>))))"

text \<open>The inner \<^verbatim>\<open>catch\<close> block: count an error, then the best-effort write.\<close>

definition fallback_step :: "world \<Rightarrow> uploaded_file \<Rightarrow> thrown \<Rightarrow> run_state \<Rightarrow> run_state" where
  "fallback_step w fileRecord e s =
     (let s1 = s\<lparr>errorCount := errorCount s + 1\<rparr>
      in case db_fault w FallbackWrite (fileId fileRecord) of
           Some e2 \<Rightarrow> s1
         | None \<Rightarrow>
             s1\<lparr>db := update_where_id (fileId fileRecord)
                        (\<lambda>r. r\<lparr>status := Error,
                               error := Some (''Processing Loop Error: '' @ message_or_string e),
                               updatedAt := new_Date w\<rparr>) (db s1)\<rparr>)"

definition process_record :: "world \<Rightarrow> uploaded_file \<Rightarrow> run_state \<Rightarrow> run_state" where
  "process_record w fileRecord s =
     (case try_record w fileRecord s of
        (None, s1) \<Rightarrow> s1
      | (Some e, s1) \<Rightarrow> fallback_step w fileRecord e s1)"

fun process_all :: "world \<Rightarrow> uploaded_file list \<Rightarrow> run_state \<Rightarrow> run_state" where
  "process_all w [] s = s"
| "process_all w (fileRecord # rest) s = process_all w rest (process_record w fileRecord s)"

datatype response =
  Unauthorized
  | NoPendingFiles
  | ProcessingComplete nat nat nat
  | JobFailed string

definition cron_secret_of :: "string option \<Rightarrow> string option" where
  "cron_secret_of authorization =
     (case authorization of
        None \<Rightarrow> None
      | Some h \<Rightarrow> (case split_on CHR '' '' h of a # b # rest \<Rightarrow> Some b | _ \<Rightarrow> None))"

definition fetch_pending :: "uploaded_file list \<Rightarrow> uploaded_file list" where
  "fetch_pending d = take 10 (filter (\<lambda>r. status r = Pending \<or> status r = Processing) d)"

text \<open>
  The handler. \<open>ProcessingComplete a p e\<close> stands for the message
  \<^verbatim>\<open>Processing complete. Attempted: a, Succeeded: p, Errors: e\<close>.
\<close>

definition GET :: "world \<Rightarrow> string option \<Rightarrow> run_state \<Rightarrow> response \<times> run_state" where
  "GET w authorization s0 =
     (if cron_secret_of authorization \<noteq> CRON_SECRET w then (Unauthorized, s0)
      else
        let s = s0\<lparr>processedCount := 0, errorCount := 0\<rparr>
        in case db_fault w SelectQuery 0 of
             Some e \<Rightarrow> (JobFailed (message_or_string e), s)
           | None \<Rightarrow>
               (let pendingFiles = fetch_pending (db s)
                in if length pendingFiles = 0 then (NoPendingFiles, s)
                   else
                     (let s' = process_all w pendingFiles s
                      in (ProcessingComplete (length pendingFiles)
                            (processedCount s') (errorCount s'), s'))))"

section \<open>Status poller\<close>

text \<open>
  A JSON object is the list of its properties in order, property values as strings;
  \<open>{...result, fileId: fileIdStr}\<close> is \<^const>\<open>AList.update\<close>. The status endpoint is a
  function from the number of requests already sent to its reply: a failure of the
  request or of reading it (\<open>Throws\<close>), a reply that is not ok with its status code,
  or a JSON body. Waiting between requests is not modelled.
\<close>

type_synonym json_object = "(string \<times> string) list"

datatype http_reply = Throws | NotOk nat | OkJson json_object

definition timed_out :: "string \<Rightarrow> json_object" where
  "timed_out fileIdStr =
     [(''status'', ''error''), (''error'', ''Timed out waiting for processing results''),
      (''fileId'', fileIdStr)]"

definition max_attempts_after_error :: "string \<Rightarrow> json_object" where
  "max_attempts_after_error fileIdStr =
     [(''status'', ''error''), (''error'', ''Max polling attempts reached after error''),
      (''fileId'', fileIdStr)]"

text \<open>
  The \<^verbatim>\<open>while\<close> loop of \<^verbatim>\<open>pollForResults\<close>: \<open>attempts\<close> is the loop's counter, \<open>sent\<close>
  the number of requests issued so far. It returns the result and the total number of
  requests.
\<close>

function poll_loop :: "(nat \<Rightarrow> http_reply) \<Rightarrow> string \<Rightarrow> nat \<Rightarrow> nat \<Rightarrow> nat \<Rightarrow> json_object \<times> nat" where
  "poll_loop server fileIdStr maxAttempts attempts sent =
     (if attempts < maxAttempts then
        (case server sent of
           Throws \<Rightarrow>
             if maxAttempts \<le> attempts + 1 then (max_attempts_after_error fileIdStr, sent + 1)
             else poll_loop server fileIdStr maxAttempts (attempts + 1) (sent + 1)
         | NotOk code \<Rightarrow>
             if code = 404 then poll_loop server fileIdStr maxAttempts (attempts + 1) (sent + 1)
             else poll_loop server fileIdStr maxAttempts (attempts + 1) (sent + 1)
         | OkJson result \<Rightarrow>
             if map_of result ''status'' = Some ''completed'' \<or>
                map_of result ''status'' = Some ''error'' then
               (AList.update ''fileId'' fileIdStr result, sent + 1)
             else if map_of result ''status'' = Some ''processing'' \<or>
                     map_of result ''status'' = Some ''pending'' then
               poll_loop server fileIdStr maxAttempts (attempts + 1) (sent + 1)
             else poll_loop server fileIdStr maxAttempts (attempts + 1) (sent + 1))
      else (timed_out fileIdStr, sent))"
  by pat_completeness auto
termination
  by (relation "measure (\<lambda>(server, fileIdStr, maxAttempts, attempts, sent). maxAttempts - attempts)")
    auto

declare poll_loop.simps [simp del]

definition pollForResults :: "(nat \<Rightarrow> http_reply) \<Rightarrow> string \<Rightarrow> bool \<Rightarrow> nat \<Rightarrow> json_object \<times> nat" where
  "pollForResults server fileIdStr isTextFile maxAttempts =
     (if isTextFile then
        (case server 0 of
           OkJson finalResult \<Rightarrow>
             (AList.update ''fileId'' fileIdStr
                (AList.update ''status''
                   (or_default (map_of finalResult ''status'') ''completed'') finalResult), 1)
         | _ \<Rightarrow>
             ([(''status'', ''error''), (''error'', ''Failed to get final details for text file''),
               (''fileId'', fileIdStr)], 1))
      else poll_loop server fileIdStr maxAttempts 0 0)"

section \<open>Client local queue: draining\<close>

text \<open>
  A file of the device is absent, present but unreadable as JSON, or holds a value.
\<close>

datatype 'a stored = Absent | Unreadable | Stored 'a

record local_meta =
  meta_name :: "string option"
  meta_mimeType :: "string option"
  meta_status :: string
  meta_error :: "string option"
  meta_lastAttempt :: "string option"
  meta_serverFileId :: "string option"
  meta_processedTextPreview :: "string option"
  meta_processedAt :: "string option"

text \<open>
  The directory of one saved item: its \<open>metadata.json\<close>, its \<open>content.txt\<close> if there
  is one, and the names of all its files.
\<close>

record local_item =
  metadata_json :: "local_meta stored"
  content_txt :: "string option"
  dir_listing :: "string list"

record device =
  sync_queue :: "string list stored"
  pending_uploads :: "string \<Rightarrow> local_item option"

datatype result_text = TextString string | TextObject "string option"

record upload_result =
  ur_status :: string
  ur_text :: "result_text option"
  ur_error :: "string option"
  ur_fileId :: "string option"

text \<open>
  \<^verbatim>\<open>handleFileProcess\<close> is not among the sources; it is a parameter: for a shared file
  and a token it gives the status updates it reports through the callback, in order, and
  then either throws or returns a result. \<open>write_ok\<close> says whether writes to the
  device's storage succeed during this call; \<open>clock_iso\<close> is the current time as text.
\<close>

record upload_run =
  progress :: "(string \<times> string option) list"
  outcome :: "thrown + upload_result"

record sync_io =
  handleFileProcess :: "shared_file \<Rightarrow> string \<Rightarrow> upload_run"
  clock_iso :: string
  write_ok :: bool
  PENDING_UPLOADS_DIR :: string

definition write_queue :: "sync_io \<Rightarrow> string list \<Rightarrow> device \<Rightarrow> device option" where
  "write_queue io q dev = (if write_ok io then Some (dev\<lparr>sync_queue := Stored q\<rparr>) else None)"

definition write_metadata :: "sync_io \<Rightarrow> string \<Rightarrow> local_meta \<Rightarrow> device \<Rightarrow> device option" where
  "write_metadata io localId m dev =
     (if write_ok io then
        Some (dev\<lparr>pending_uploads :=
                (pending_uploads dev)
                  (localId := map_option (\<lambda>item. item\<lparr>metadata_json := Stored m\<rparr>)
                                (pending_uploads dev localId))\<rparr>)
      else None)"

text \<open>
  \<^verbatim>\<open>queue.shift()\<close>, the write of the queue, and \<^verbatim>\<open>return queue.length > 0\<close>. A write
  that fails throws to the outer \<^verbatim>\<open>catch\<close>, which returns \<open>false\<close>.
\<close>

definition shift_and_return :: "sync_io \<Rightarrow> string list \<Rightarrow> device \<Rightarrow> bool \<times> device" where
  "shift_and_return io queue dev =
     (case write_queue io (tl queue) dev of
        None \<Rightarrow> (False, dev)
      | Some dev1 \<Rightarrow> (length (tl queue) > 0, dev1))"

text \<open>The status callback handed to \<^verbatim>\<open>handleFileProcess\<close>.\<close>

definition on_status :: "local_meta \<Rightarrow> string \<times> string option \<Rightarrow> local_meta" where
  "on_status m upd =
     (case upd of
        (st, details_fileId) \<Rightarrow>
          if meta_status m \<noteq> st then
            (let m1 = m\<lparr>meta_status := st\<rparr>
             in if truthy details_fileId then m1\<lparr>meta_serverFileId := details_fileId\<rparr> else m1)
          else m)"

definition endsWith :: "string \<Rightarrow> string \<Rightarrow> bool" where
  "endsWith s suf = suffix suf s"

text \<open>
  The inner \<^verbatim>\<open>catch\<close> of \<^verbatim>\<open>processSyncQueue\<close>: mark the metadata, write it, move the head
  of the queue to its end, write the queue. A write that fails here throws to the outer
  \<^verbatim>\<open>catch\<close>, which returns \<open>false\<close>.
\<close>

definition critical_error :: "sync_io \<Rightarrow> string \<Rightarrow> string list \<Rightarrow> local_meta \<Rightarrow> thrown \<Rightarrow> device \<Rightarrow> bool \<times> device" where
  "critical_error io localId queue m e dev =
     (let m1 = m\<lparr>meta_status := ''error'',
                 meta_error := Some (case e of ErrorObj msg \<Rightarrow> msg
                                     | _ \<Rightarrow> ''Critical processing error''),
                 meta_lastAttempt := Some (clock_iso io)\<rparr>
      in case write_metadata io localId m1 dev of
           None \<Rightarrow> (False, dev)
         | Some dev1 \<Rightarrow>
             (let queue1 = tl queue @ [hd queue]
              in case write_queue io queue1 dev1 of
                   None \<Rightarrow> (False, dev1)
                 | Some dev2 \<Rightarrow> (length queue1 > 0, dev2)))"

text \<open>The update of the metadata when the upload returns \<open>completed\<close>.\<close>

definition mark_completed :: "sync_io \<Rightarrow> upload_result \<Rightarrow> local_meta \<Rightarrow> local_meta" where
  "mark_completed io result m =
     (let m3 = m\<lparr>meta_status := ''completed'', meta_serverFileId := ur_fileId result\<rparr>;
          m4 = (case ur_text result of
                  Some (TextString t) \<Rightarrow>
                    m3\<lparr>meta_processedTextPreview := Some (generateTextPreview t 50)\<rparr>
                | Some (TextObject x) \<Rightarrow>
                    if truthy x then
                      m3\<lparr>meta_processedTextPreview :=
                           Some (generateTextPreview (or_default x []) 50)\<rparr>
                    else m3
                | None \<Rightarrow> m3)
      in m4\<lparr>meta_processedAt := Some (clock_iso io), meta_error := None\<rparr>)"

text \<open>The update of the metadata when the upload returns \<open>error\<close>.\<close>

definition mark_error :: "upload_result \<Rightarrow> local_meta \<Rightarrow> local_meta" where
  "mark_error result m =
     m\<lparr>meta_status := ''error'',
       meta_error := Some (or_default (ur_error result) ''Unknown processing error'')\<rparr>"

text \<open>
  The names in the item's directory that do not end in \<open>.json\<close> or \<open>.txt\<close>, and the
  shared file rebuilt from what is stored: the text of \<open>content.txt\<close> if it exists,
  else the path of the first such name.
\<close>

definition content_names :: "local_item \<Rightarrow> string list" where
  "content_names item =
     filter (\<lambda>name. \<not> endsWith name ''.json'' \<and> \<not> endsWith name ''.txt'') (dir_listing item)"

definition queued_shared_file :: "sync_io \<Rightarrow> string \<Rightarrow> local_item \<Rightarrow> local_meta \<Rightarrow> shared_file" where
  "queued_shared_file io localId item metadata =
     (let base = \<lparr>sf_uri = None, sf_mimeType = meta_mimeType metadata,
                  sf_name = meta_name metadata, sf_text = None\<rparr>;
          fileDir = PENDING_UPLOADS_DIR io @ localId @ ''/''
      in case content_txt item of
           Some t \<Rightarrow> base\<lparr>sf_text := Some t\<rparr>
         | None \<Rightarrow> base\<lparr>sf_uri := Some (fileDir @ hd (content_names item))\<rparr>)"

text \<open>
  \<^verbatim>\<open>processSyncQueue(token)\<close>. \<open>write_ok\<close> holds for the whole call: a write that fails
  inside the inner \<^verbatim>\<open>try\<close> is caught by the inner \<^verbatim>\<open>catch\<close>, whose own write to the same
  storage fails likewise, so the call ends in the outer \<^verbatim>\<open>catch\<close> with \<open>false\<close>.
\<close>

definition processSyncQueue :: "sync_io \<Rightarrow> string \<Rightarrow> device \<Rightarrow> bool \<times> device" where
  "processSyncQueue io token dev =
     (case sync_queue dev of
        Absent \<Rightarrow> (False, dev)
      | Unreadable \<Rightarrow> (False, dev)
      | Stored queue \<Rightarrow>
          if length queue = 0 then (False, dev)
          else
            (let localId = hd queue
             in case pending_uploads dev localId of
                  None \<Rightarrow> shift_and_return io queue dev
                | Some item \<Rightarrow>
                    (case metadata_json item of
                       Absent \<Rightarrow> (False, dev)
                     | Unreadable \<Rightarrow> (False, dev)
                     | Stored metadata \<Rightarrow>
                         if meta_status metadata = ''completed'' then
                           shift_and_return io queue dev
                         else if content_txt item = None \<and> length (content_names item) = 0 then
                           (case write_metadata io localId
                                   (metadata\<lparr>meta_status := ''error'',
                                             meta_error := Some ''Local content file missing''\<rparr>)
                                   dev of
                              None \<Rightarrow> (False, dev)
                            | Some dev1 \<Rightarrow> shift_and_return io queue dev1)
                         else
                           (let run = handleFileProcess io
                                        (queued_shared_file io localId item metadata) token;
                                m1 = foldl on_status metadata (progress run)
                            in case outcome run of
                                 Inl e \<Rightarrow> critical_error io localId queue m1 e dev
                               | Inr result \<Rightarrow>
                                   (let m2 = m1\<lparr>meta_lastAttempt := Some (clock_iso io)\<rparr>
                                    in if ur_status result = ''completed'' then
                                         (case write_metadata io localId
                                                 (mark_completed io result m2) dev of
                                            None \<Rightarrow> (False, dev)
                                          | Some dev1 \<Rightarrow>
                                              (case write_queue io (tl queue) dev1 of
                                                 None \<Rightarrow> (False, dev1)
                                               | Some dev2 \<Rightarrow> (length (tl queue) > 0, dev2)))
                                       else if ur_status result = ''error'' then
                                         (case write_metadata io localId
                                                 (mark_error result m2) dev of
                                            None \<Rightarrow> (False, dev)
                                          | Some dev1 \<Rightarrow>
                                              (let queue1 = tl queue @ [hd queue]
                                               in case write_queue io queue1 dev1 of
                                                    None \<Rightarrow> (False, dev1)
                                                  | Some dev2 \<Rightarrow> (length queue1 > 0, dev2)))
                                       else (length queue > 0, dev))))))"

section \<open>Shapes named in the properties\<close>

text \<open>The result returned when processing ends with the error message \<open>m\<close>.\<close>

definition error_result :: "string \<Rightarrow> file_result" where
  "error_result m =
     \<lparr>res_status = Error, res_textContent = Some (''[Processing Error: '' @ m @ '']''),
      res_generatedImageUrl = None, res_tokensUsed = 0, res_error = Some m\<rparr>"

text \<open>The content fields of a record.\<close>

definition content_fields :: "uploaded_file \<Rightarrow> string option \<times> string option \<times> nat" where
  "content_fields r = (textContent r, generatedImageUrl r, tokensUsed r)"





text \<open>A reply of the status endpoint that ends the polling.\<close>

fun terminal_reply :: "http_reply \<Rightarrow> bool" where
  "terminal_reply (OkJson result) =
     (map_of result ''status'' = Some ''completed'' \<or> map_of result ''status'' = Some ''error'')"
| "terminal_reply Throws = False"
| "terminal_reply (NotOk code) = False"

section \<open>Example worlds and records\<close>

text \<open>A world in which the object store, both models and the metering service fail.\<close>

definition offline_world :: world where
  "offline_world =
     \<lparr>r2_object = (\<lambda>key. None),
      r2_put = (\<lambda>key body. Some (Prim ''offline'')),
      utf8_decode = (\<lambda>b. []),
      base64_decode = (\<lambda>s. []),
      generateObject = (\<lambda>url. Inl (ErrorObj ''fetch failed'')),
      stage_temp_image = (\<lambda>p b. None),
      images_edit = (\<lambda>prompt. Inl (ErrorObj ''fetch failed'')),
      path_basename = (\<lambda>p. p),
      path_basename_ext = (\<lambda>p e. ''sketch''),
      path_extname = (\<lambda>p. ''.png''),
      tmpdir = ''/tmp'',
      date_now = ''1700000000000'',
      random_hex = ''0a1b2c3d'',
      R2_PUBLIC_URL = ''https://pub.example'',
      CRON_SECRET = Some ''s3cret'',
      new_Date = 1700000000000,
      db_fault = (\<lambda>op i. None),
      meter_fault = (\<lambda>uid n. Some (ErrorObj ''metering unavailable''))\<rparr>"

text \<open>A world in which every collaborator answers.\<close>

definition online_world :: world where
  "online_world =
     offline_world
       \<lparr>r2_object := (\<lambda>key. if key = ''uploads/user_1/note.txt'' then Some [104, 105]
                            else Some [1, 2, 3]),
        r2_put := (\<lambda>key body. None),
        utf8_decode := (\<lambda>b. if b = [104, 105] then ''hi'' else []),
        generateObject := (\<lambda>url. Inr (''Hello'', Some 42)),
        images_edit := (\<lambda>prompt. Inr (Some ''aGk='')),
        meter_fault := (\<lambda>uid n. None)\<rparr>"


definition note_record :: uploaded_file where
  "note_record =
     \<lparr>fileId = 7, userId = ''user_1'', r2Key = Some ''uploads/user_1/note.txt'',
      blobUrl = ''https://pub.example/uploads/user_1/note.txt'', originalName = ''note.txt'',
      fileType = ''text/plain'', processType = Some ''standard-ocr'', status = Pending,
      textContent = None, generatedImageUrl = None, tokensUsed = 0, error = None,
      updatedAt = 0\<rparr>"

definition photo_record :: uploaded_file where
  "photo_record =
     \<lparr>fileId = 8, userId = ''user_1'', r2Key = Some ''uploads/user_1/photo.jpg'',
      blobUrl = ''https://pub.example/uploads/user_1/photo.jpg'', originalName = ''photo.jpg'',
      fileType = ''image/jpeg'', processType = Some ''standard-ocr'', status = Pending,
      textContent = None, generatedImageUrl = None, tokensUsed = 0, error = None,
      updatedAt = 0\<rparr>"

definition sketch_record :: uploaded_file where
  "sketch_record =
     \<lparr>fileId = 9, userId = ''user_1'', r2Key = Some ''uploads/user_1/sketch.png'',
      blobUrl = ''https://pub.example/uploads/user_1/sketch.png'', originalName = ''sketch.png'',
      fileType = ''image/png'', processType = Some ''magic-diagram'', status = Pending,
      textContent = None, generatedImageUrl = None, tokensUsed = 0, error = None,
      updatedAt = 0\<rparr>"

definition zip_record :: uploaded_file where
  "zip_record =
     \<lparr>fileId = 10, userId = ''user_1'', r2Key = Some ''uploads/user_1/archive.zip'',
      blobUrl = ''https://pub.example/uploads/user_1/archive.zip'', originalName = ''archive.zip'',
      fileType = ''application/zip'', processType = Some ''standard-ocr'', status = Pending,
      textContent = None, generatedImageUrl = None, tokensUsed = 0, error = None,
      updatedAt = 0\<rparr>"

text \<open>A zip record without a stored key, whose URL has no \<open>uploads\<close> segment.\<close>

definition keyless_zip_record :: uploaded_file where
  "keyless_zip_record =
     zip_record\<lparr>r2Key := None, blobUrl := ''https://cdn.example/tmp/archive.zip''\<rparr>"

definition fresh_state :: "uploaded_file list \<Rightarrow> run_state" where
  "fresh_state rows =
     \<lparr>db = rows, meter_calls = [], processedCount = 0, errorCount = 0\<rparr>"

text \<open>
  A status endpoint that answers 404 to the first two requests and then with a
  completed payload, and one that always answers 404.
\<close>

definition late_status_endpoint :: "nat \<Rightarrow> http_reply" where
  "late_status_endpoint n =
     (if n < 2 then NotOk 404
      else OkJson [(''status'', ''completed''), (''textContent'', ''Hello'')])"

definition missing_status_endpoint :: "nat \<Rightarrow> http_reply" where
  "missing_status_endpoint n = NotOk 404"

text \<open>
  A device with two queued items, the first a saved note, and two uploads: one that
  reports an error, one that completes.
\<close>

definition saved_note :: local_item where
  "saved_note =
     \<lparr>metadata_json =
        Stored \<lparr>meta_name = Some ''note.txt'', meta_mimeType = Some ''text/plain'',
                meta_status = ''pending'', meta_error = None, meta_lastAttempt = None,
                meta_serverFileId = None, meta_processedTextPreview = None,
                meta_processedAt = None\<rparr>,
      content_txt = Some ''Buy milk'',
      dir_listing = [''metadata.json'', ''content.txt'']\<rparr>"

definition two_queued :: device where
  "two_queued =
     \<lparr>sync_queue = Stored [''local-1'', ''local-2''],
      pending_uploads = (\<lambda>localId. if localId = ''local-1'' then Some saved_note else None)\<rparr>"

definition failing_upload :: sync_io where
  "failing_upload =
     \<lparr>handleFileProcess =
        (\<lambda>file token.
           \<lparr>progress = [(''uploading'', None)],
            outcome = Inr \<lparr>ur_status = ''error'', ur_text = None,
                           ur_error = Some ''Network request failed'', ur_fileId = None\<rparr>\<rparr>),
      clock_iso = ''2024-01-01T00:00:00.000Z'',
      write_ok = True,
      PENDING_UPLOADS_DIR = ''file:///documents/pending_uploads/''\<rparr>"

definition completing_upload :: sync_io where
  "completing_upload =
     failing_upload
       \<lparr>handleFileProcess :=
          (\<lambda>file token.
             \<lparr>progress = [(''uploading'', None), (''processing'', Some ''42'')],
              outcome = Inr \<lparr>ur_status = ''completed'', ur_text = Some (TextString ''Buy milk''),
                             ur_error = None, ur_fileId = Some ''42''\<rparr>\<rparr>)\<rparr>"

section \<open>Properties\<close>

subsection \<open>Text previews\<close>

lemma indexOf_scan_lower:
  "indexOf_scan pat xs i \<noteq> - 1 \<Longrightarrow> int i \<le> indexOf_scan pat xs i"
proof (induction xs arbitrary: i)
  case Nil
  then show ?case by (simp split: if_splits)
next
  case (Cons c cs)
  show ?case
  proof (cases "prefix pat (c # cs)")
    case True
    then show ?thesis by simp
  next
    case False
    with Cons.prems have "indexOf_scan pat cs (Suc i) \<noteq> - 1" by simp
    from Cons.IH [OF this] False show ?thesis by simp
  qed
qed

lemma indexOf_lower:
  "indexOf s pat pos \<noteq> - 1 \<Longrightarrow> int (min pos (length s)) \<le> indexOf s pat pos"
  unfolding indexOf_def Let_def by (rule indexOf_scan_lower)

lemma math_max_mem: "xs \<noteq> [] \<Longrightarrow> math_max xs \<in> set xs"
  by (induction xs rule: math_max.induct) (auto simp: max_def)

lemma generateTextPreview_short:
  "length s \<le> n \<Longrightarrow> generateTextPreview s n = s"
  by (simp add: generateTextPreview_def)

lemma generateTextPreview_long:
  assumes long: "n < length s"
  shows "\<exists>k. k \<le> n \<and> (0 < n \<longrightarrow> n div 2 < k) \<and>
             generateTextPreview s n = take k s @ ''...''"
proof -
  define cands where "cands = [indexOf s [CHR 0x0A, CHR 0x0A] (n div 2),
                 indexOf s ''. '' (n div 2),
                 indexOf s ''? '' (n div 2),
                 indexOf s ''! '' (n div 2)]"
  define bps where "bps = filter (\<lambda>point. point \<noteq> - 1 \<and> point < int n) cands"
  define bp where "bp = (if length bps \<noteq> 0 then math_max bps + 1 else int n)"
  from long have ne: "s \<noteq> []" by auto
  from long ne have res: "generateTextPreview s n = take (nat bp) s @ ''...''"
    unfolding generateTextPreview_def substring0_def Let_def bp_def bps_def cands_def
    by (simp only: if_False not_le [symmetric] simp_thms)
  show ?thesis
  proof (cases "bps = []")
    case True
    then have "nat bp = n" by (simp add: bp_def)
    with res show ?thesis by (intro exI [of _ n]) simp
  next
    case False
    then have mem: "math_max bps \<in> set bps" by (rule math_max_mem)
    then have m1: "math_max bps \<noteq> - 1" and m2: "math_max bps < int n"
      and m3: "math_max bps \<in> set cands"
      by (auto simp: bps_def)
    from m3 obtain pat where "math_max bps = indexOf s pat (n div 2)"
      by (auto simp: cands_def)
    with m1 indexOf_lower [of s pat "n div 2"] long
    have low: "int (n div 2) \<le> math_max bps" by (simp add: min_def split: if_splits)
    from False have bp: "bp = math_max bps + 1" by (simp add: bp_def)
    from low m2 bp have "nat bp \<le> n" "n div 2 < nat bp" by linarith+
    with res show ?thesis by (intro exI [of _ "nat bp"]) simp
  qed
qed

text \<open>
  Claim C8, as amended. For a shared item with text, the preview is of type text; it is
  the text itself when the text has at most 150 characters, and otherwise the first
  \<open>k\<close> characters of the text, for some \<open>k\<close> with \<open>75 < k \<le> 150\<close>, followed by
  three dots.
\<close>

theorem generatePreview_text_shape:
  assumes "sf_text file = Some t" and "t \<noteq> []"
  shows "previewType (generatePreview dir ok file lid) = PreviewText \<and>
         (length t \<le> 150 \<longrightarrow> previewText (generatePreview dir ok file lid) = Some t) \<and>
         (150 < length t \<longrightarrow>
            (\<exists>k. 75 < k \<and> k \<le> 150 \<and> prefix (take k t) t \<and>
                 previewText (generatePreview dir ok file lid) = Some (take k t @ ''...'')))"
proof -
  from assms have pv: "generatePreview dir ok file lid =
      \<lparr>previewText = Some (generateTextPreview t 150), thumbnailUri = None,
       previewType = PreviewText\<rparr>"
    by (simp add: generatePreview_def)
  have short: "length t \<le> 150 \<longrightarrow> generateTextPreview t 150 = t"
    by (simp add: generateTextPreview_short)
  have long: "150 < length t \<longrightarrow>
      (\<exists>k. 75 < k \<and> k \<le> 150 \<and> prefix (take k t) t \<and>
           generateTextPreview t 150 = take k t @ ''...'')"
  proof
    assume "150 < length t"
    from generateTextPreview_long [OF this] obtain k
      where "k \<le> 150" "75 < k" "generateTextPreview t 150 = take k t @ ''...''"
      by auto
    then show "\<exists>k. 75 < k \<and> k \<le> 150 \<and> prefix (take k t) t \<and>
           generateTextPreview t 150 = take k t @ ''...''"
      by (auto simp: take_is_prefix)
  qed
  from pv short long show ?thesis by simp
qed

theorem generatePreview_text_shape_witness:
  "previewText (generatePreview ''previews/'' True
      \<lparr>sf_uri = None, sf_mimeType = None, sf_name = None, sf_text = Some ''Buy milk. Call Ana''\<rparr>
      ''local-1'') = Some ''Buy milk. Call Ana''"
  using generatePreview_text_shape [of
      "\<lparr>sf_uri = None, sf_mimeType = None, sf_name = None, sf_text = Some ''Buy milk. Call Ana''\<rparr>"
      "''Buy milk. Call Ana''" "''previews/''" True "''local-1''"]
  by simp

text \<open>
  Claim C8 as stated fails: for a text of 151 letters \<open>a\<close> the preview, which ends in
  three dots, is not a prefix of the text.
\<close>

theorem generatePreview_prefix_counterexample:
  "(case previewText (generatePreview ''previews/'' True
        \<lparr>sf_uri = None, sf_mimeType = None, sf_name = None,
         sf_text = Some (replicate 151 CHR ''a'')\<rparr> ''local-1'') of
      None \<Rightarrow> False
    | Some p \<Rightarrow> \<not> prefix p (replicate 151 CHR ''a''))"
proof -
  define t where "t = replicate 151 CHR ''a''"
  have len: "length t = 151" by (simp add: t_def)
  then have "150 < length t" by simp
  from generateTextPreview_long [OF this] obtain k
    where k: "k \<le> 150" and res: "generateTextPreview t 150 = take k t @ ''...''"
    by auto
  have "\<not> prefix (take k t @ ''...'') t"
  proof
    assume "prefix (take k t @ ''...'') t"
    then obtain zs where "t = (take k t @ ''...'') @ zs" by (auto simp: prefix_def)
    then have "t ! k = (take k t @ ''...'' @ zs) ! k" by simp
    also from k len have "\<dots> = CHR ''.''" by (simp add: nth_append)
    finally have "t ! k = CHR ''.''" .
    moreover from k have "t ! k = CHR ''a''" by (simp add: t_def)
    ultimately show False by simp
  qed
  moreover have "t \<noteq> []" using len by auto
  ultimately show ?thesis
    unfolding t_def [symmetric] using res
    by (simp add: generatePreview_def)
qed

subsection \<open>Processing one record\<close>

lemma processMagicDiagram_cases:
  "(\<exists>e. processMagicDiagram w key n u = diagram_failed e) \<or>
   (\<exists>k. processMagicDiagram w key n u =
      \<lparr>md_generatedImageUrl = R2_PUBLIC_URL w @ ''/'' @ k, md_tokensUsed = 5000, md_error = None\<rparr>)"
proof (cases "downloadFromR2 w key")
  case (Inl e)
  then have "processMagicDiagram w key n u = diagram_failed e" by (simp add: processMagicDiagram_def)
  then show ?thesis by blast
next
  case (Inr buf)
  define ext where "ext = (if path_extname w (path_basename w n) = [] then ''.png''
                            else path_extname w (path_basename w n))"
  define tmp where "tmp = tmpdir w @ ''/'' @ date_now w @ ''-'' @
                               path_basename_ext w (path_basename w n) ext @ ext"
  define prompt where "prompt = ''Digitize this sketch image into a clean, well-rendered diagram suitable for digital files. Preserve the core elements and connections shown in the sketch. Original filename for context: ''
                 @ n @ ''.''"
  define gk where "gk = ''generated/'' @ u @ ''/'' @ date_now w @ ''-'' @ random_hex w
                                @ ''-'' @ path_basename_ext w n ext @ ''.png''"
  have eq: "processMagicDiagram w key n u =
      (case stage_temp_image w tmp buf of
                Some e \<Rightarrow> diagram_failed e
              | None \<Rightarrow>
                  (case images_edit w prompt of
                     Inl e \<Rightarrow> diagram_failed e
                   | Inr imageBase64 \<Rightarrow>
                       if \<not> truthy imageBase64 then
                         diagram_failed (ErrorObj
                           ''Image generation failed, no b64_json returned in the response.'')
                       else
                         (case uploadToR2 w gk (base64_decode w (or_default imageBase64 [])) of
                               Some e \<Rightarrow> diagram_failed e
                             | None \<Rightarrow>
                                 \<lparr>md_generatedImageUrl = R2_PUBLIC_URL w @ ''/'' @ gk,
                                  md_tokensUsed = 5000, md_error = None\<rparr>)))"
    unfolding processMagicDiagram_def Let_def ext_def tmp_def prompt_def gk_def
    by (simp only: Inr sum.case)
  show ?thesis
    unfolding eq
    by (auto split: option.splits sum.splits)
qed

lemma md_error_nonempty:
  "md_error (processMagicDiagram w key n u) = Some m \<Longrightarrow> m \<noteq> []"
  using processMagicDiagram_cases [of w key n u]
  by (auto simp: diagram_failed_def)

lemma run_strategy_magic:
  assumes "is_magic_diagram (effective_processType fr) (toLowerCase (fileType fr))"
      and "md_error (processMagicDiagram w key (originalName fr) (userId fr)) = Some m"
  shows "run_strategy w fr key =
           Inr \<lparr>v_textContent = Some (''[Error generating diagram: '' @ m @ '']''),
                v_generatedImageUrl = None, v_tokensUsed = 0, v_processingError = Some m\<rparr>"
  using assms md_error_nonempty [OF assms(2)]
  by (simp add: run_strategy_def Let_def)

lemma run_strategy_magic_ok:
  assumes "is_magic_diagram (effective_processType fr) (toLowerCase (fileType fr))"
      and "md_error (processMagicDiagram w key (originalName fr) (userId fr)) = None"
  shows "run_strategy w fr key =
           Inr \<lparr>v_textContent = Some (''[Generated Diagram Image]('' @
                    md_generatedImageUrl (processMagicDiagram w key (originalName fr) (userId fr)) @ '')''),
                v_generatedImageUrl =
                  Some (md_generatedImageUrl (processMagicDiagram w key (originalName fr) (userId fr))),
                v_tokensUsed = md_tokensUsed (processMagicDiagram w key (originalName fr) (userId fr)),
                v_processingError = None\<rparr>"
  using assms
  by (simp add: run_strategy_def Let_def)

lemma run_strategy_ocr:
  assumes "\<not> is_magic_diagram (effective_processType fr) (toLowerCase (fileType fr))"
      and "is_standard_ocr (effective_processType fr) (toLowerCase (fileType fr))"
  shows "run_strategy w fr key =
          (if blobUrl fr = [] then
              Inl (ErrorObj (''Missing blobUrl for OCR processing of file ID '' @ show_nat (fileId fr)))
            else
              (case processImageWithGPT4one w (blobUrl fr) of
                 (text, tokens) \<Rightarrow>
                   if prefix ''Error processing image OCR'' text then
                     Inr \<lparr>v_textContent = None, v_generatedImageUrl = None,
                          v_tokensUsed = tokens, v_processingError = Some text\<rparr>
                   else if text = [] \<or> js_trim text = [] then
                     Inr \<lparr>v_textContent = Some ''[OCR completed, but no text extracted]'',
                          v_generatedImageUrl = None, v_tokensUsed = tokens,
                          v_processingError = None\<rparr>
                   else
                     Inr \<lparr>v_textContent = Some text, v_generatedImageUrl = None,
                          v_tokensUsed = tokens, v_processingError = None\<rparr>))"
  using assms
  by (simp add: run_strategy_def Let_def)

lemma run_strategy_pdf:
  assumes "\<not> is_magic_diagram (effective_processType fr) (toLowerCase (fileType fr))"
      and "\<not> is_standard_ocr (effective_processType fr) (toLowerCase (fileType fr))"
      and "is_pdf (toLowerCase (fileType fr))"
  shows "run_strategy w fr key =
           Inr \<lparr>v_textContent = Some ''[PDF Content - Processing Pending Implementation]'',
                v_generatedImageUrl = None, v_tokensUsed = 0,
                v_processingError = Some ''PDF processing not yet implemented.''\<rparr>"
  using assms
  by (simp add: run_strategy_def Let_def)

lemma run_strategy_text:
  assumes "\<not> is_magic_diagram (effective_processType fr) (toLowerCase (fileType fr))"
      and "\<not> is_standard_ocr (effective_processType fr) (toLowerCase (fileType fr))"
      and "\<not> is_pdf (toLowerCase (fileType fr))"
      and "is_plain_text (toLowerCase (fileType fr))"
  shows "run_strategy w fr key =
     (case downloadFromR2 w key of
              Inl e \<Rightarrow> Inl e
            | Inr buf \<Rightarrow>
                Inr \<lparr>v_textContent = Some (utf8_decode w buf), v_generatedImageUrl = None,
                     v_tokensUsed = 0, v_processingError = None\<rparr>)"
  using assms
  by (simp add: run_strategy_def Let_def)

lemma run_strategy_unsupported:
  assumes "\<not> is_magic_diagram (effective_processType fr) (toLowerCase (fileType fr))"
      and "\<not> is_standard_ocr (effective_processType fr) (toLowerCase (fileType fr))"
      and "\<not> is_pdf (toLowerCase (fileType fr))"
      and "\<not> is_plain_text (toLowerCase (fileType fr))"
  shows "run_strategy w fr key =
           Inr \<lparr>v_textContent = Some (''[Unsupported: '' @ toLowerCase (fileType fr) @ '']''),
                v_generatedImageUrl = None, v_tokensUsed = 0,
                v_processingError =
                  Some (''Unsupported file type/processType: '' @ toLowerCase (fileType fr)
                        @ '' / '' @ effective_processType fr)\<rparr>"
  using assms
  by (simp add: run_strategy_def Let_def)

lemmas dispatch_defs =
  effective_processType_def toLowerCase_def lower_char_def is_magic_diagram_def
  is_standard_ocr_def is_pdf_def is_plain_text_def js_includes_def indexOf_def

lemma plain_text_dispatch:
  assumes "is_plain_text ft"
  shows "\<not> is_magic_diagram pt ft" "\<not> is_standard_ocr pt ft" "\<not> is_pdf ft"
  using assms
  by (auto simp: is_plain_text_def is_magic_diagram_def is_standard_ocr_def is_pdf_def
      js_includes_def indexOf_def)

lemma ocr_not_magic: "is_standard_ocr pt ft \<Longrightarrow> \<not> is_magic_diagram pt ft"
  by (auto simp: is_standard_ocr_def is_magic_diagram_def)

lemma run_strategy_throws:
  assumes "run_strategy w fr key = Inl e"
  shows "\<exists>m. m \<noteq> [] \<and> e = ErrorObj m"
proof -
  let ?pt = "effective_processType fr" and ?ft = "toLowerCase (fileType fr)"
  consider (magic) "is_magic_diagram ?pt ?ft"
    | (ocr) "\<not> is_magic_diagram ?pt ?ft" "is_standard_ocr ?pt ?ft"
    | (pdf) "\<not> is_magic_diagram ?pt ?ft" "\<not> is_standard_ocr ?pt ?ft" "is_pdf ?ft"
    | (plain) "\<not> is_magic_diagram ?pt ?ft" "\<not> is_standard_ocr ?pt ?ft" "\<not> is_pdf ?ft"
        "is_plain_text ?ft"
    | (other) "\<not> is_magic_diagram ?pt ?ft" "\<not> is_standard_ocr ?pt ?ft" "\<not> is_pdf ?ft"
        "\<not> is_plain_text ?ft"
    by blast
  then show ?thesis
  proof cases
    case magic
    show ?thesis
    proof (cases "md_error (processMagicDiagram w key (originalName fr) (userId fr))")
      case None
      from run_strategy_magic_ok [OF magic None] assms show ?thesis by simp
    next
      case (Some m)
      from run_strategy_magic [OF magic Some] assms show ?thesis by simp
    qed
  next
    case ocr
    from assms show ?thesis
      unfolding run_strategy_ocr [OF ocr]
      by (auto split: if_splits prod.splits)
  next
    case pdf
    from run_strategy_pdf [OF pdf] assms show ?thesis by simp
  next
    case plain
    from assms show ?thesis
      unfolding run_strategy_text [OF plain]
      by (auto simp: downloadFromR2_def split: option.splits)
  next
    case other
    from run_strategy_unsupported [OF other] assms show ?thesis by simp
  qed
qed

lemma finish_caught:
  "m \<noteq> [] \<Longrightarrow> finish (caught (ErrorObj m)) = error_result m"
  by (simp add: finish_def error_result_def)

lemma processImage_failure:
  "generateObject w url = Inl e \<Longrightarrow>
   processImageWithGPT4one w url = (''Error processing image OCR: '' @ message_or_string e, 0)"
  by (simp add: processImageWithGPT4one_def)

text \<open>
  Claim C1, as amended. Let the object key of a record be determined. If the strategy
  throws, or the diagram generation reports an error, or the call of the text model for a
  standard OCR record fails, or the record is a PDF or of an unsupported type, then
  \<^const>\<open>processSingleFileRecord\<close> returns (it is a total function: nothing is thrown past
  it) the result with status \<open>error\<close>, \<open>textContent\<close> the failure message wrapped as
  \<open>[Processing Error: ...]\<close>, \<open>generatedImageUrl\<close> null, \<open>tokensUsed\<close> 0 and \<open>error\<close>
  the failure message.
\<close>

theorem extraction_failure_result:
  assumes key: "determine_r2Key fr = Inr key"
  shows "(\<forall>e. run_strategy w fr key = Inl e \<longrightarrow>
            (\<exists>m. m \<noteq> [] \<and> e = ErrorObj m \<and> processSingleFileRecord w fr = error_result m)) \<and>
         (\<forall>m. is_magic_diagram (effective_processType fr) (toLowerCase (fileType fr)) \<and>
              md_error (processMagicDiagram w key (originalName fr) (userId fr)) = Some m \<longrightarrow>
              processSingleFileRecord w fr = error_result m) \<and>
         (\<forall>e. is_standard_ocr (effective_processType fr) (toLowerCase (fileType fr)) \<and>
              blobUrl fr \<noteq> [] \<and> generateObject w (blobUrl fr) = Inl e \<longrightarrow>
              processSingleFileRecord w fr =
                error_result (''Error processing image OCR: '' @ message_or_string e)) \<and>
         (\<not> is_magic_diagram (effective_processType fr) (toLowerCase (fileType fr)) \<and>
          \<not> is_standard_ocr (effective_processType fr) (toLowerCase (fileType fr)) \<and>
          is_pdf (toLowerCase (fileType fr)) \<longrightarrow>
            processSingleFileRecord w fr = error_result ''PDF processing not yet implemented.'') \<and>
         (\<not> is_magic_diagram (effective_processType fr) (toLowerCase (fileType fr)) \<and>
          \<not> is_standard_ocr (effective_processType fr) (toLowerCase (fileType fr)) \<and>
          \<not> is_pdf (toLowerCase (fileType fr)) \<and> \<not> is_plain_text (toLowerCase (fileType fr)) \<longrightarrow>
            processSingleFileRecord w fr =
              error_result (''Unsupported file type/processType: '' @ toLowerCase (fileType fr)
                            @ '' / '' @ effective_processType fr))"
proof (intro conjI allI impI)
  fix e
  assume thrown: "run_strategy w fr key = Inl e"
  from run_strategy_throws [OF thrown] obtain m where m: "m \<noteq> []" "e = ErrorObj m" by blast
  with key thrown have "processSingleFileRecord w fr = error_result m"
    by (simp add: processSingleFileRecord_def finish_def error_result_def)
  with m show "\<exists>m. m \<noteq> [] \<and> e = ErrorObj m \<and> processSingleFileRecord w fr = error_result m"
    by blast
next
  fix m
  assume a: "is_magic_diagram (effective_processType fr) (toLowerCase (fileType fr)) \<and>
              md_error (processMagicDiagram w key (originalName fr) (userId fr)) = Some m"
  then have ne: "m \<noteq> []" using md_error_nonempty by blast
  from a have "run_strategy w fr key =
           Inr \<lparr>v_textContent = Some (''[Error generating diagram: '' @ m @ '']''),
                v_generatedImageUrl = None, v_tokensUsed = 0, v_processingError = Some m\<rparr>"
    using run_strategy_magic by blast
  with key ne show "processSingleFileRecord w fr = error_result m"
    by (simp add: processSingleFileRecord_def finish_def error_result_def)
next
  fix e
  assume a: "is_standard_ocr (effective_processType fr) (toLowerCase (fileType fr)) \<and>
              blobUrl fr \<noteq> [] \<and> generateObject w (blobUrl fr) = Inl e"
  then have ocr: "is_standard_ocr (effective_processType fr) (toLowerCase (fileType fr))"
    and url: "blobUrl fr \<noteq> []" and gen: "generateObject w (blobUrl fr) = Inl e"
    by blast+
  from ocr have nm: "\<not> is_magic_diagram (effective_processType fr) (toLowerCase (fileType fr))"
    by (rule ocr_not_magic)
  have "run_strategy w fr key =
      Inr \<lparr>v_textContent = None, v_generatedImageUrl = None, v_tokensUsed = 0,
           v_processingError = Some (''Error processing image OCR: '' @ message_or_string e)\<rparr>"
    unfolding run_strategy_ocr [OF nm ocr] processImage_failure [OF gen]
    using url by simp
  with key show "processSingleFileRecord w fr =
                error_result (''Error processing image OCR: '' @ message_or_string e)"
    by (simp add: processSingleFileRecord_def finish_def error_result_def)
next
  assume "\<not> is_magic_diagram (effective_processType fr) (toLowerCase (fileType fr)) \<and>
          \<not> is_standard_ocr (effective_processType fr) (toLowerCase (fileType fr)) \<and>
          is_pdf (toLowerCase (fileType fr))"
  then have "run_strategy w fr key =
           Inr \<lparr>v_textContent = Some ''[PDF Content - Processing Pending Implementation]'',
                v_generatedImageUrl = None, v_tokensUsed = 0,
                v_processingError = Some ''PDF processing not yet implemented.''\<rparr>"
    by (intro run_strategy_pdf) simp_all
  with key show "processSingleFileRecord w fr =
      error_result ''PDF processing not yet implemented.''"
    by (simp add: processSingleFileRecord_def finish_def error_result_def)
next
  assume "\<not> is_magic_diagram (effective_processType fr) (toLowerCase (fileType fr)) \<and>
          \<not> is_standard_ocr (effective_processType fr) (toLowerCase (fileType fr)) \<and>
          \<not> is_pdf (toLowerCase (fileType fr)) \<and> \<not> is_plain_text (toLowerCase (fileType fr))"
  then have "run_strategy w fr key =
           Inr \<lparr>v_textContent = Some (''[Unsupported: '' @ toLowerCase (fileType fr) @ '']''),
                v_generatedImageUrl = None, v_tokensUsed = 0,
                v_processingError =
                  Some (''Unsupported file type/processType: '' @ toLowerCase (fileType fr)
                        @ '' / '' @ effective_processType fr)\<rparr>"
    by (intro run_strategy_unsupported) simp_all
  with key show "processSingleFileRecord w fr =
              error_result (''Unsupported file type/processType: '' @ toLowerCase (fileType fr)
                            @ '' / '' @ effective_processType fr)"
    by (simp add: processSingleFileRecord_def finish_def error_result_def)
qed

lemma note_key: "determine_r2Key note_record = Inr ''uploads/user_1/note.txt''"
  by (simp add: determine_r2Key_def note_record_def)

lemma note_is_plain_text: "is_plain_text (toLowerCase (fileType note_record))"
  by (simp add: note_record_def dispatch_defs)

lemma note_offline_throws:
  "run_strategy offline_world note_record ''uploads/user_1/note.txt'' =
     Inl (ErrorObj ''Failed to download file from R2: uploads/user_1/note.txt'')"
  using note_is_plain_text plain_text_dispatch [OF note_is_plain_text]
  by (simp add: run_strategy_text downloadFromR2_def offline_world_def)

lemma sketch_key: "determine_r2Key sketch_record = Inr ''uploads/user_1/sketch.png''"
  by (simp add: determine_r2Key_def sketch_record_def)

lemma sketch_is_magic:
  "is_magic_diagram (effective_processType sketch_record) (toLowerCase (fileType sketch_record))"
  by (simp add: sketch_record_def dispatch_defs)

lemma sketch_offline:
  "processMagicDiagram offline_world ''uploads/user_1/sketch.png'' (originalName sketch_record)
     (userId sketch_record) =
   diagram_failed (ErrorObj ''Failed to download file from R2: uploads/user_1/sketch.png'')"
  by (simp add: processMagicDiagram_def downloadFromR2_def offline_world_def)

lemma photo_key: "determine_r2Key photo_record = Inr ''uploads/user_1/photo.jpg''"
  by (simp add: determine_r2Key_def photo_record_def)

lemma photo_is_ocr:
  "is_standard_ocr (effective_processType photo_record) (toLowerCase (fileType photo_record))"
  by (simp add: photo_record_def dispatch_defs)

theorem extraction_failure_result_witness:
  "processSingleFileRecord offline_world note_record =
     error_result ''Failed to download file from R2: uploads/user_1/note.txt'' \<and>
   processSingleFileRecord offline_world sketch_record =
     error_result ''Error generating diagram: Failed to download file from R2: uploads/user_1/sketch.png'' \<and>
   processSingleFileRecord offline_world photo_record =
     error_result ''Error processing image OCR: fetch failed''"
proof (intro conjI)
  from extraction_failure_result [OF note_key, of offline_world] note_offline_throws
  show "processSingleFileRecord offline_world note_record =
     error_result ''Failed to download file from R2: uploads/user_1/note.txt''"
    by auto
next
  have "md_error (processMagicDiagram offline_world ''uploads/user_1/sketch.png''
          (originalName sketch_record) (userId sketch_record)) =
        Some ''Error generating diagram: Failed to download file from R2: uploads/user_1/sketch.png''"
    unfolding sketch_offline by (simp add: diagram_failed_def)
  with extraction_failure_result [OF sketch_key, of offline_world] sketch_is_magic
  show "processSingleFileRecord offline_world sketch_record =
     error_result ''Error generating diagram: Failed to download file from R2: uploads/user_1/sketch.png''"
    by blast
next
  have "blobUrl photo_record \<noteq> []" by (simp add: photo_record_def)
  moreover have "generateObject offline_world (blobUrl photo_record) = Inl (ErrorObj ''fetch failed'')"
    by (simp add: offline_world_def)
  ultimately have "processSingleFileRecord offline_world photo_record =
     error_result (''Error processing image OCR: '' @ message_or_string (ErrorObj ''fetch failed''))"
    using extraction_failure_result [OF photo_key, of offline_world] photo_is_ocr by blast
  then show "processSingleFileRecord offline_world photo_record =
     error_result ''Error processing image OCR: fetch failed''"
    by simp
qed

text \<open>
  Claim C1 as stated fails: when the download of a text record fails, the returned
  \<open>textContent\<close> is not null but the bracketed error message.
\<close>

theorem failure_textContent_counterexample:
  "res_status (processSingleFileRecord offline_world note_record) = Error \<and>
   res_textContent (processSingleFileRecord offline_world note_record) =
     Some ''[Processing Error: Failed to download file from R2: uploads/user_1/note.txt]''"
  using note_key note_offline_throws
  by (simp add: processSingleFileRecord_def finish_def)

text \<open>
  Claim C5. For a record whose file type is \<open>text/plain\<close> or \<open>text/markdown\<close>, whatever
  its process type: when the object key is determined and the download of the object
  under that key succeeds, the result is \<open>completed\<close>, its \<open>textContent\<close> is the UTF-8
  decoding of the downloaded bytes, and \<open>tokensUsed\<close> is 0.
\<close>

theorem plain_text_round_trip:
  assumes ft: "is_plain_text (toLowerCase (fileType fr))"
      and key: "determine_r2Key fr = Inr key"
      and dl: "r2_object w key = Some bytes"
  shows "processSingleFileRecord w fr =
           \<lparr>res_status = Completed, res_textContent = Some (utf8_decode w bytes),
            res_generatedImageUrl = None, res_tokensUsed = 0, res_error = None\<rparr>"
proof -
  from plain_text_dispatch [OF ft] ft have "run_strategy w fr key =
     (case downloadFromR2 w key of
              Inl e \<Rightarrow> Inl e
            | Inr buf \<Rightarrow>
                Inr \<lparr>v_textContent = Some (utf8_decode w buf), v_generatedImageUrl = None,
                     v_tokensUsed = 0, v_processingError = None\<rparr>)"
    by (simp add: run_strategy_text)
  with key dl show ?thesis
    by (simp add: processSingleFileRecord_def downloadFromR2_def finish_def)
qed

theorem plain_text_round_trip_witness:
  "processSingleFileRecord online_world note_record =
     \<lparr>res_status = Completed, res_textContent = Some ''hi'',
      res_generatedImageUrl = None, res_tokensUsed = 0, res_error = None\<rparr>"
proof -
  have dl: "r2_object online_world ''uploads/user_1/note.txt'' = Some [104, 105]"
    by (simp add: online_world_def offline_world_def)
  have dec: "utf8_decode online_world [104, 105] = ''hi''"
    by (simp add: online_world_def offline_world_def)
  from plain_text_round_trip [OF note_is_plain_text note_key dl] dec
  show ?thesis by simp
qed

lemma zip_dispatch:
  "\<not> is_magic_diagram pt ''application/zip''" "\<not> is_standard_ocr pt ''application/zip''"
  "\<not> is_pdf ''application/zip''" "\<not> is_plain_text ''application/zip''"
  by (simp_all add: is_plain_text_def is_magic_diagram_def is_standard_ocr_def is_pdf_def
      js_includes_def indexOf_def)

lemma lower_zip: "toLowerCase ''application/zip'' = ''application/zip''"
  by (simp add: toLowerCase_def lower_char_def)

lemma determine_r2Key_early:
  assumes "determine_r2Key fr = Inl r"
  shows "res_status r = Error \<and> res_textContent r = None \<and> res_generatedImageUrl r = None \<and>
         res_tokensUsed r = 0 \<and> truthy (res_error r)"
  using assms
  by (auto simp: determine_r2Key_def Let_def split: if_splits)

text \<open>
  Claim C6, as amended. For a record with file type \<open>application/zip\<close> and process type
  \<open>standard-ocr\<close>: when its object key is determined, processing yields status
  \<open>error\<close>, a \<open>textContent\<close> that contains \<open>Unsupported\<close> and \<open>tokensUsed\<close> 0; when no
  key can be determined, it yields status \<open>error\<close>, \<open>textContent\<close> null and
  \<open>tokensUsed\<close> 0.
\<close>

theorem unsupported_zip_result:
  assumes ft: "fileType fr = ''application/zip''"
      and pt: "processType fr = Some ''standard-ocr''"
  shows "(\<forall>key. determine_r2Key fr = Inr key \<longrightarrow>
            processSingleFileRecord w fr =
              error_result ''Unsupported file type/processType: application/zip / standard-ocr'' \<and>
            js_includes ''[Processing Error: Unsupported file type/processType: application/zip / standard-ocr]''
              ''Unsupported'') \<and>
         (\<forall>r. determine_r2Key fr = Inl r \<longrightarrow>
            res_status (processSingleFileRecord w fr) = Error \<and>
            res_textContent (processSingleFileRecord w fr) = None \<and>
            res_tokensUsed (processSingleFileRecord w fr) = 0)"
proof (intro conjI allI impI)
  fix key
  assume key: "determine_r2Key fr = Inr key"
  from pt have ept: "effective_processType fr = ''standard-ocr''"
    by (simp add: effective_processType_def)
  from ft have lft: "toLowerCase (fileType fr) = ''application/zip''"
    by (simp add: lower_zip)
  have "run_strategy w fr key =
           Inr \<lparr>v_textContent = Some (''[Unsupported: '' @ toLowerCase (fileType fr) @ '']''),
                v_generatedImageUrl = None, v_tokensUsed = 0,
                v_processingError =
                  Some (''Unsupported file type/processType: '' @ toLowerCase (fileType fr)
                        @ '' / '' @ effective_processType fr)\<rparr>"
    by (rule run_strategy_unsupported) (simp_all only: lft zip_dispatch not_False_eq_True)
  with key show "processSingleFileRecord w fr =
              error_result ''Unsupported file type/processType: application/zip / standard-ocr''"
    by (simp add: processSingleFileRecord_def finish_def error_result_def lft ept)
next
  show "js_includes ''[Processing Error: Unsupported file type/processType: application/zip / standard-ocr]''
              ''Unsupported''"
    by (simp add: js_includes_def indexOf_def)
next
  fix r
  assume "determine_r2Key fr = Inl r"
  with determine_r2Key_early [OF this]
  show "res_status (processSingleFileRecord w fr) = Error"
    "res_textContent (processSingleFileRecord w fr) = None"
    "res_tokensUsed (processSingleFileRecord w fr) = 0"
    by (simp_all add: processSingleFileRecord_def)
qed

lemma zip_key: "determine_r2Key zip_record = Inr ''uploads/user_1/archive.zip''"
  by (simp add: determine_r2Key_def zip_record_def)

lemma keyless_zip_key:
  "determine_r2Key keyless_zip_record =
     Inl \<lparr>res_status = Error, res_textContent = None, res_generatedImageUrl = None,
          res_tokensUsed = 0,
          res_error = Some ''Could not determine R2 key from blobUrl: https://cdn.example/tmp/archive.zip''\<rparr>"
  by (simp add: determine_r2Key_def keyless_zip_record_def zip_record_def findIndex_def)

theorem unsupported_zip_result_witness:
  "processSingleFileRecord online_world zip_record =
     error_result ''Unsupported file type/processType: application/zip / standard-ocr'' \<and>
   res_textContent (processSingleFileRecord online_world keyless_zip_record) = None"
proof -
  have z: "fileType zip_record = ''application/zip''" "processType zip_record = Some ''standard-ocr''"
    by (simp_all add: zip_record_def)
  have k: "fileType keyless_zip_record = ''application/zip''"
    "processType keyless_zip_record = Some ''standard-ocr''"
    by (simp_all add: keyless_zip_record_def zip_record_def)
  from unsupported_zip_result [OF z, of online_world] zip_key
    unsupported_zip_result [OF k, of online_world] keyless_zip_key
  show ?thesis by blast
qed

text \<open>
  Claim C6 as stated fails: for a zip record without a stored key whose URL has no
  \<open>uploads\<close> segment, the status is \<open>error\<close> and no tokens are used, but
  \<open>textContent\<close> is null, so it does not contain \<open>Unsupported\<close>.
\<close>

theorem keyless_zip_counterexample:
  "fileType keyless_zip_record = ''application/zip'' \<and>
   processType keyless_zip_record = Some ''standard-ocr'' \<and>
   res_status (processSingleFileRecord online_world keyless_zip_record) = Error \<and>
   \<not> (case res_textContent (processSingleFileRecord online_world keyless_zip_record) of
        None \<Rightarrow> False
      | Some t \<Rightarrow> js_includes t ''Unsupported'')"
  using keyless_zip_key
  by (simp add: processSingleFileRecord_def keyless_zip_record_def zip_record_def)

subsection \<open>The worker's writes\<close>

lemma update_where_id_mem:
  assumes "r \<in> set (update_where_id fid f d)"
  shows "(\<exists>r0 \<in> set d. fileId r0 = fid \<and> r = f r0) \<or> (r \<in> set d \<and> fileId r \<noteq> fid)"
  using assms by (auto simp: update_where_id_def)

lemma db_account_step [simp]: "db (account_step w fr result s) = db s"
  by (simp add: account_step_def incrementAndLogTokenUsage_def Let_def split: option.splits)

lemma commit_step_mem:
  assumes "commit_step w fr res d1 = Inr d2" "r \<in> set d2" "fileId r = fileId fr"
  shows "status r = res_status res \<and> textContent r = res_textContent res \<and>
         generatedImageUrl r = res_generatedImageUrl res \<and>
         tokensUsed r = res_tokensUsed res \<and> error r = res_error res"
proof -
  from assms(1) have "d2 = update_where_id (fileId fr)
                 (\<lambda>r. r\<lparr>status := res_status res,
                        textContent := res_textContent res,
                        generatedImageUrl := res_generatedImageUrl res,
                        tokensUsed := res_tokensUsed res,
                        error := res_error res,
                        updatedAt := new_Date w\<rparr>) d1"
    by (auto simp: commit_step_def split: option.splits)
  with assms(2) have "r \<in> set (update_where_id (fileId fr)
                 (\<lambda>r. r\<lparr>status := res_status res,
                        textContent := res_textContent res,
                        generatedImageUrl := res_generatedImageUrl res,
                        tokensUsed := res_tokensUsed res,
                        error := res_error res,
                        updatedAt := new_Date w\<rparr>) d1)"
    by simp
  from update_where_id_mem [OF this] assms(3) show ?thesis by auto
qed

lemma process_record_cases:
  obtains (claim_failed) e where "claim_step w fr (db s) = Inl e"
      "process_record w fr s = fallback_step w fr e s"
    | (commit_failed) d1 e where "claim_step w fr (db s) = Inr d1"
      "commit_step w fr (processSingleFileRecord w fr) d1 = Inl e"
      "process_record w fr s = fallback_step w fr e (s\<lparr>db := d1\<rparr>)"
    | (committed) d1 d2 where "claim_step w fr (db s) = Inr d1"
      "commit_step w fr (processSingleFileRecord w fr) d1 = Inr d2"
      "process_record w fr s = account_step w fr (processSingleFileRecord w fr) (s\<lparr>db := d2\<rparr>)"
proof (cases "claim_step w fr (db s)")
  case (Inl e)
  then have "process_record w fr s = fallback_step w fr e s"
    by (simp add: process_record_def try_record_def)
  with Inl show ?thesis by (rule claim_failed)
next
  case (Inr d1)
  show ?thesis
  proof (cases "commit_step w fr (processSingleFileRecord w fr) d1")
    case (Inl e)
    with Inr have "process_record w fr s = fallback_step w fr e (s\<lparr>db := d1\<rparr>)"
      by (simp add: process_record_def try_record_def Let_def)
    with Inr Inl show ?thesis by (rule commit_failed)
  next
    case (Inr d2)
    with \<open>claim_step w fr (db s) = Inr d1\<close>
    have "process_record w fr s = account_step w fr (processSingleFileRecord w fr) (s\<lparr>db := d2\<rparr>)"
      by (simp add: process_record_def try_record_def Let_def)
    with \<open>claim_step w fr (db s) = Inr d1\<close> Inr show ?thesis by (rule committed)
  qed
qed





subsection \<open>The claim step\<close>

lemma claim_step_pending:
  assumes "status fr = Pending" "db_fault w ClaimWrite (fileId fr) = None"
  shows "claim_step w fr d =
           Inr (update_where_id (fileId fr)
                  (\<lambda>r. r\<lparr>status := Processing, updatedAt := new_Date w, error := None\<rparr>) d)"
  using assms by (simp add: claim_step_def)

lemma claim_step_processing:
  "status fr = Processing \<Longrightarrow> claim_step w fr d = Inr d"
  by (simp add: claim_step_def)

lemma claim_write_content:
  "map content_fields (update_where_id fid
      (\<lambda>r. r\<lparr>status := Processing, updatedAt := t, error := None\<rparr>) d) = map content_fields d"
  by (induction d) (simp_all add: update_where_id_def content_fields_def)

lemma claim_write_rows:
  assumes "r \<in> set (update_where_id fid
      (\<lambda>r. r\<lparr>status := Processing, updatedAt := t, error := None\<rparr>) d)"
  shows "(fileId r = fid \<longrightarrow> status r = Processing \<and> error r = None) \<and>
         (fileId r \<noteq> fid \<longrightarrow> r \<in> set d)"
  using update_where_id_mem [OF assms] by auto

text \<open>
  Claim C3. Let the store accept the claim write. Invoking the claim step twice in
  succession for a record fetched as pending returns both times (nothing is thrown);
  afterwards the rows of the record are processing with \<open>error\<close> null, the content
  fields of all rows are as before the first invocation, and the rows of other records
  are untouched. An invocation that observes the record as processing returns the
  store as it is, whatever the world, without writing.
\<close>

theorem claim_step_idempotent:
  assumes pend: "status fr = Pending"
      and ok1: "db_fault w1 ClaimWrite (fileId fr) = None"
      and ok2: "db_fault w2 ClaimWrite (fileId fr) = None"
  shows "\<exists>d1 d2. claim_step w1 fr d = Inr d1 \<and> claim_step w2 fr d1 = Inr d2 \<and>
           (\<forall>r \<in> set d2. fileId r = fileId fr \<longrightarrow> status r = Processing \<and> error r = None) \<and>
           (\<forall>r \<in> set d2. fileId r \<noteq> fileId fr \<longrightarrow> r \<in> set d) \<and>
           map content_fields d2 = map content_fields d \<and>
           (\<forall>r1 \<in> set d1. fileId r1 = fileId fr \<longrightarrow> claim_step w3 r1 d1 = Inr d1)"
proof -
  define d1 where "d1 = update_where_id (fileId fr)
      (\<lambda>r. r\<lparr>status := Processing, updatedAt := new_Date w1, error := None\<rparr>) d"
  define d2 where "d2 = update_where_id (fileId fr)
      (\<lambda>r. r\<lparr>status := Processing, updatedAt := new_Date w2, error := None\<rparr>) d1"
  have c1: "claim_step w1 fr d = Inr d1"
    unfolding d1_def by (rule claim_step_pending [OF pend ok1])
  have c2: "claim_step w2 fr d1 = Inr d2"
    unfolding d2_def by (rule claim_step_pending [OF pend ok2])
  have rows1: "\<And>r. r \<in> set d1 \<Longrightarrow>
      (fileId r = fileId fr \<longrightarrow> status r = Processing \<and> error r = None) \<and>
      (fileId r \<noteq> fileId fr \<longrightarrow> r \<in> set d)"
    unfolding d1_def by (rule claim_write_rows)
  have rows2: "\<And>r. r \<in> set d2 \<Longrightarrow>
      (fileId r = fileId fr \<longrightarrow> status r = Processing \<and> error r = None) \<and>
      (fileId r \<noteq> fileId fr \<longrightarrow> r \<in> set d1)"
    unfolding d2_def by (rule claim_write_rows)
  have p1: "\<forall>r \<in> set d2. fileId r = fileId fr \<longrightarrow> status r = Processing \<and> error r = None"
    using rows2 by blast
  have p2: "\<forall>r \<in> set d2. fileId r \<noteq> fileId fr \<longrightarrow> r \<in> set d"
    using rows1 rows2 by blast
  have p3: "map content_fields d2 = map content_fields d"
    unfolding d2_def d1_def by (simp only: claim_write_content)
  have p4: "\<forall>r1 \<in> set d1. fileId r1 = fileId fr \<longrightarrow> claim_step w3 r1 d1 = Inr d1"
    using rows1 claim_step_processing by blast
  from c1 c2 p1 p2 p3 p4 show ?thesis by blast
qed

theorem claim_step_idempotent_witness:
  "claim_step online_world note_record [note_record, photo_record] =
     Inr [note_record\<lparr>status := Processing, updatedAt := 1700000000000, error := None\<rparr>,
          photo_record] \<and>
   claim_step online_world note_record
     [note_record\<lparr>status := Processing, updatedAt := 1700000000000, error := None\<rparr>,
      photo_record] =
     Inr [note_record\<lparr>status := Processing, updatedAt := 1700000000000, error := None\<rparr>,
          photo_record] \<and>
   claim_step offline_world
     (note_record\<lparr>status := Processing, updatedAt := 1700000000000, error := None\<rparr>)
     [note_record\<lparr>status := Processing, updatedAt := 1700000000000, error := None\<rparr>,
      photo_record] =
     Inr [note_record\<lparr>status := Processing, updatedAt := 1700000000000, error := None\<rparr>,
          photo_record]"
proof -
  let ?claimed = "note_record\<lparr>status := Processing, updatedAt := 1700000000000, error := None\<rparr>"
  have pend: "status note_record = Pending" by (simp add: note_record_def)
  have ok: "db_fault online_world ClaimWrite (fileId note_record) = None"
    by (simp add: online_world_def offline_world_def)
  have first: "claim_step online_world note_record [note_record, photo_record] =
      Inr [?claimed, photo_record]"
    by (simp add: claim_step_pending [OF pend ok] update_where_id_def)
      (simp add: note_record_def photo_record_def online_world_def offline_world_def)
  have second: "claim_step online_world note_record [?claimed, photo_record] =
      Inr [?claimed, photo_record]"
    by (simp add: claim_step_pending [OF pend ok] update_where_id_def)
      (simp add: note_record_def photo_record_def online_world_def offline_world_def)
  from claim_step_idempotent [OF pend ok ok, of "[note_record, photo_record]" offline_world]
  obtain d1 d2 where d: "claim_step online_world note_record [note_record, photo_record] = Inr d1"
    and again: "\<forall>r1 \<in> set d1. fileId r1 = fileId note_record \<longrightarrow>
                  claim_step offline_world r1 d1 = Inr d1"
    by blast
  from d first have d1: "d1 = [?claimed, photo_record]" by simp
  from again have "claim_step offline_world ?claimed [?claimed, photo_record] =
      Inr [?claimed, photo_record]"
    unfolding d1 by simp
  with first second show ?thesis by simp
qed

subsection \<open>Metering\<close>

lemma meter_calls_account_step:
  "meter_calls (account_step w fr res s) =
     meter_calls s @
       (if res_status res = Completed \<and> 0 < res_tokensUsed res
        then [(userId fr, res_tokensUsed res)] else [])"
  by (simp add: account_step_def incrementAndLogTokenUsage_def Let_def split: option.splits)

lemma meter_calls_fallback_step [simp]:
  "meter_calls (fallback_step w fr e s) = meter_calls s"
  by (simp add: fallback_step_def Let_def split: option.splits)

lemma processMagicDiagram_meter_fault [simp]:
  "processMagicDiagram (w\<lparr>meter_fault := mf\<rparr>) key n u = processMagicDiagram w key n u"
  by (simp add: processMagicDiagram_def downloadFromR2_def uploadToR2_def Let_def
      cong: sum.case_cong option.case_cong if_cong)

lemma run_strategy_meter_fault [simp]:
  "run_strategy (w\<lparr>meter_fault := mf\<rparr>) fr key = run_strategy w fr key"
  by (simp add: run_strategy_def downloadFromR2_def processImageWithGPT4one_def Let_def
      cong: sum.case_cong option.case_cong prod.case_cong if_cong)

lemma processSingleFileRecord_meter_fault [simp]:
  "processSingleFileRecord (w\<lparr>meter_fault := mf\<rparr>) fr = processSingleFileRecord w fr"
  by (simp add: processSingleFileRecord_def cong: sum.case_cong)

lemma claim_step_meter_fault [simp]:
  "claim_step (w\<lparr>meter_fault := mf\<rparr>) fr d = claim_step w fr d"
  by (simp add: claim_step_def cong: option.case_cong)

lemma commit_step_meter_fault [simp]:
  "commit_step (w\<lparr>meter_fault := mf\<rparr>) fr res d = commit_step w fr res d"
  by (simp add: commit_step_def cong: option.case_cong)

text \<open>
  Claim C4. Let the worker commit the result of a record (the claim write and the
  result write are accepted). Then the calls of the metering service made for that
  record are: exactly one call, with the record's user and the result's \<open>tokensUsed\<close>,
  when the result is completed with \<open>tokensUsed > 0\<close>; and none otherwise. The store
  after the record is the committed one whatever the metering service does, also when
  it fails, and every row of the record has the committed status.
\<close>

theorem metering_exactly_once:
  assumes claim: "claim_step w fr (db s) = Inr d1"
      and commit: "commit_step w fr (processSingleFileRecord w fr) d1 = Inr d2"
  shows "meter_calls (process_record w fr s) =
           meter_calls s @
             (if res_status (processSingleFileRecord w fr) = Completed \<and>
                 0 < res_tokensUsed (processSingleFileRecord w fr)
              then [(userId fr, res_tokensUsed (processSingleFileRecord w fr))] else []) \<and>
         db (process_record (w\<lparr>meter_fault := mf\<rparr>) fr s) = d2 \<and>
         (\<forall>r \<in> set d2. fileId r = fileId fr \<longrightarrow>
            status r = res_status (processSingleFileRecord w fr))"
proof (intro conjI)
  from claim commit
  have "process_record w fr s =
          account_step w fr (processSingleFileRecord w fr) (s\<lparr>db := d2\<rparr>)"
    by (simp add: process_record_def try_record_def Let_def)
  then show "meter_calls (process_record w fr s) =
           meter_calls s @
             (if res_status (processSingleFileRecord w fr) = Completed \<and>
                 0 < res_tokensUsed (processSingleFileRecord w fr)
              then [(userId fr, res_tokensUsed (processSingleFileRecord w fr))] else [])"
    by (simp only: meter_calls_account_step) simp
next
  from claim commit
  have "process_record (w\<lparr>meter_fault := mf\<rparr>) fr s =
          account_step (w\<lparr>meter_fault := mf\<rparr>) fr (processSingleFileRecord w fr) (s\<lparr>db := d2\<rparr>)"
    by (simp add: process_record_def try_record_def Let_def)
  then show "db (process_record (w\<lparr>meter_fault := mf\<rparr>) fr s) = d2"
    by simp
next
  show "\<forall>r \<in> set d2. fileId r = fileId fr \<longrightarrow>
            status r = res_status (processSingleFileRecord w fr)"
    using commit_step_mem [OF commit] by blast
qed

lemma meter_calls_uncommitted:
  assumes "claim_step w fr (db s) = Inl e \<or>
           (\<exists>d1 e. claim_step w fr (db s) = Inr d1 \<and>
              commit_step w fr (processSingleFileRecord w fr) d1 = Inl e)"
  shows "meter_calls (process_record w fr s) = meter_calls s"
  using assms
  by (cases w fr s rule: process_record_cases) auto

lemma photo_online_result:
  "processSingleFileRecord online_world photo_record =
     \<lparr>res_status = Completed, res_textContent = Some ''Hello'',
      res_generatedImageUrl = None, res_tokensUsed = 42, res_error = None\<rparr>"
proof -
  have img: "processImageWithGPT4one online_world (blobUrl photo_record) = (''Hello'', 42)"
    by (simp add: processImageWithGPT4one_def online_world_def offline_world_def)
  have url: "blobUrl photo_record \<noteq> []" by (simp add: photo_record_def)
  have "run_strategy online_world photo_record ''uploads/user_1/photo.jpg'' =
      Inr \<lparr>v_textContent = Some ''Hello'', v_generatedImageUrl = None,
           v_tokensUsed = 42, v_processingError = None\<rparr>"
    unfolding run_strategy_ocr [OF ocr_not_magic [OF photo_is_ocr] photo_is_ocr] img
    using url by (simp add: js_trim_def is_js_space_def)
  with photo_key show ?thesis
    by (simp add: processSingleFileRecord_def finish_def)
qed

theorem metering_exactly_once_witness:
  "meter_calls (process_record online_world photo_record (fresh_state [photo_record])) =
     [(''user_1'', 42)] \<and>
   map status (db (process_record
      (online_world\<lparr>meter_fault := (\<lambda>uid n. Some (ErrorObj ''metering unavailable''))\<rparr>)
      photo_record (fresh_state [photo_record]))) = [Completed]"
proof -
  define d1 where "d1 = [photo_record\<lparr>status := Processing, updatedAt := 1700000000000,
                                        error := None\<rparr>]"
  define d2 where "d2 = [photo_record\<lparr>status := Completed, textContent := Some ''Hello'',
      generatedImageUrl := None, tokensUsed := 42, error := None,
      updatedAt := 1700000000000\<rparr>]"
  have claim: "claim_step online_world photo_record (db (fresh_state [photo_record])) = Inr d1"
    by (simp add: claim_step_def fresh_state_def update_where_id_def photo_record_def
        online_world_def offline_world_def d1_def)
  have commit: "commit_step online_world photo_record
      (processSingleFileRecord online_world photo_record) d1 = Inr d2"
    unfolding photo_online_result
    by (simp add: commit_step_def update_where_id_def photo_record_def
        online_world_def offline_world_def d1_def d2_def)
  note m = metering_exactly_once [OF claim commit,
      of "\<lambda>uid n. Some (ErrorObj ''metering unavailable'')"]
  from m have a: "meter_calls (process_record online_world photo_record (fresh_state [photo_record])) =
      [(userId photo_record, 42)]"
    by (simp add: photo_online_result fresh_state_def)
  from m have b: "db (process_record
      (online_world\<lparr>meter_fault := (\<lambda>uid n. Some (ErrorObj ''metering unavailable''))\<rparr>)
      photo_record (fresh_state [photo_record])) = d2"
    by simp
  have u: "userId photo_record = ''user_1''" by (simp add: photo_record_def)
  have st: "map status d2 = [Completed]" by (simp add: d2_def)
  from a b u st show ?thesis by simp
qed

subsection \<open>The run summary\<close>

lemma account_step_counts:
  "(processedCount (account_step w fr res s) = processedCount s + 1 \<and>
    errorCount (account_step w fr res s) = errorCount s) \<or>
   (processedCount (account_step w fr res s) = processedCount s \<and>
    errorCount (account_step w fr res s) = errorCount s + 1)"
  by (simp add: account_step_def incrementAndLogTokenUsage_def Let_def split: option.splits)

lemma fallback_step_counts:
  "processedCount (fallback_step w fr e s) = processedCount s \<and>
   errorCount (fallback_step w fr e s) = errorCount s + 1"
  by (simp add: fallback_step_def Let_def split: option.splits)

lemma process_record_counts:
  "(processedCount (process_record w fr s) = processedCount s + 1 \<and>
    errorCount (process_record w fr s) = errorCount s) \<or>
   (processedCount (process_record w fr s) = processedCount s \<and>
    errorCount (process_record w fr s) = errorCount s + 1)"
proof (cases w fr s rule: process_record_cases)
  case (claim_failed e)
  with fallback_step_counts [of w fr e s] show ?thesis by simp
next
  case (commit_failed d1 e)
  with fallback_step_counts [of w fr e "s\<lparr>db := d1\<rparr>"] show ?thesis by simp
next
  case (committed d1 d2)
  with account_step_counts [of w fr "processSingleFileRecord w fr" "s\<lparr>db := d2\<rparr>"]
  show ?thesis by simp
qed

lemma process_all_counts:
  "processedCount (process_all w frs s) + errorCount (process_all w frs s) =
     processedCount s + errorCount s + length frs"
proof (induction frs arbitrary: s)
  case Nil
  show ?case by simp
next
  case (Cons fr frs)
  from process_record_counts [of w fr s]
  have "processedCount (process_record w fr s) + errorCount (process_record w fr s) =
          processedCount s + errorCount s + 1"
    by auto
  with Cons.IH [of "process_record w fr s"] show ?case by simp
qed

text \<open>
  Claim C10. A run that is authorised, whose batch query succeeds and that fetches
  \<open>n > 0\<close> records answers with the summary \<open>Attempted: n, Succeeded: p, Errors: e\<close>
  where \<open>p + e = n\<close>; and handling one record, whatever fails, raises exactly one of
  the two counters, by one.
\<close>

theorem run_summary_total:
  assumes auth: "cron_secret_of authorization = CRON_SECRET w"
      and sel: "db_fault w SelectQuery 0 = None"
      and some: "0 < length (fetch_pending (db s0))"
  shows "(\<exists>p e. fst (GET w authorization s0) =
            ProcessingComplete (length (fetch_pending (db s0))) p e \<and>
            p + e = length (fetch_pending (db s0))) \<and>
         ((processedCount (process_record w fr s) = processedCount s + 1 \<and>
           errorCount (process_record w fr s) = errorCount s) \<or>
          (processedCount (process_record w fr s) = processedCount s \<and>
           errorCount (process_record w fr s) = errorCount s + 1))"
proof
  let ?s = "s0\<lparr>processedCount := 0, errorCount := 0\<rparr>"
  let ?frs = "fetch_pending (db s0)"
  from auth sel some
  have "fst (GET w authorization s0) =
      ProcessingComplete (length ?frs) (processedCount (process_all w ?frs ?s))
        (errorCount (process_all w ?frs ?s))"
    by (simp add: GET_def Let_def)
  moreover from process_all_counts [of w ?frs ?s]
  have "processedCount (process_all w ?frs ?s) + errorCount (process_all w ?frs ?s) = length ?frs"
    by simp
  ultimately show "\<exists>p e. fst (GET w authorization s0) =
            ProcessingComplete (length (fetch_pending (db s0))) p e \<and>
            p + e = length (fetch_pending (db s0))"
    by blast
next
  show "(processedCount (process_record w fr s) = processedCount s + 1 \<and>
           errorCount (process_record w fr s) = errorCount s) \<or>
          (processedCount (process_record w fr s) = processedCount s \<and>
           errorCount (process_record w fr s) = errorCount s + 1)"
    by (rule process_record_counts)
qed

theorem run_summary_total_witness:
  "\<exists>p e. fst (GET offline_world (Some ''Bearer s3cret'') (fresh_state [note_record, photo_record])) =
            ProcessingComplete 2 p e \<and> p + e = 2"
proof -
  have auth: "cron_secret_of (Some ''Bearer s3cret'') = CRON_SECRET offline_world"
    by (simp add: cron_secret_of_def offline_world_def)
  have sel: "db_fault offline_world SelectQuery 0 = None"
    by (simp add: offline_world_def)
  have fetched: "fetch_pending (db (fresh_state [note_record, photo_record])) =
      [note_record, photo_record]"
    by (simp add: fetch_pending_def fresh_state_def note_record_def photo_record_def)
  then have some: "0 < length (fetch_pending (db (fresh_state [note_record, photo_record])))"
    by simp
  from run_summary_total [OF auth sel some, of note_record "fresh_state []"]
  have "\<exists>p e. fst (GET offline_world (Some ''Bearer s3cret'')
                    (fresh_state [note_record, photo_record])) =
            ProcessingComplete (length (fetch_pending (db (fresh_state [note_record, photo_record]))))
              p e \<and>
            p + e = length (fetch_pending (db (fresh_state [note_record, photo_record])))"
    by (rule conjunct1)
  then show ?thesis unfolding fetched by (simp add: numeral_2_eq_2)
qed

subsection \<open>Polling\<close>

lemma poll_loop_404:
  assumes "attempts < maxAttempts" "server sent = NotOk 404"
  shows "poll_loop server fid maxAttempts attempts sent =
           poll_loop server fid maxAttempts (attempts + 1) (sent + 1)"
  using assms by (subst poll_loop.simps) simp

lemma poll_loop_404s:
  assumes "\<forall>i<k. server (sent + i) = NotOk 404" "attempts + k \<le> maxAttempts"
  shows "poll_loop server fid maxAttempts attempts sent =
           poll_loop server fid maxAttempts (attempts + k) (sent + k)"
  using assms
proof (induction k arbitrary: attempts sent)
  case 0
  show ?case by simp
next
  case (Suc k)
  from Suc.prems have first: "server sent = NotOk 404" "attempts < maxAttempts"
    by (auto dest: spec [of _ 0])
  from Suc.prems have rest: "\<forall>i<k. server (sent + 1 + i) = NotOk 404"
    "attempts + 1 + k \<le> maxAttempts"
    by auto
  have "poll_loop server fid maxAttempts attempts sent =
           poll_loop server fid maxAttempts (attempts + 1) (sent + 1)"
    using first by (intro poll_loop_404)
  with Suc.IH [OF rest] show ?case by simp
qed

lemma poll_loop_terminal:
  assumes "attempts < maxAttempts" "server sent = OkJson payload"
    "map_of payload ''status'' = Some ''completed'' \<or> map_of payload ''status'' = Some ''error''"
  shows "poll_loop server fid maxAttempts attempts sent =
           (AList.update ''fileId'' fid payload, sent + 1)"
  using assms by (subst poll_loop.simps) auto

lemma poll_loop_exhausted:
  assumes "\<forall>i. sent \<le> i \<and> i < sent + (maxAttempts - attempts) \<longrightarrow> \<not> terminal_reply (server i)"
  shows "poll_loop server fid maxAttempts attempts sent =
           (if attempts < maxAttempts \<and> server (sent + (maxAttempts - attempts) - 1) = Throws
            then max_attempts_after_error fid else timed_out fid,
            sent + (maxAttempts - attempts))"
  using assms
proof (induction "maxAttempts - attempts" arbitrary: attempts sent)
  case 0
  then have "\<not> attempts < maxAttempts" by simp
  then show ?case by (subst poll_loop.simps) simp
next
  case (Suc n)
  then have lt: "attempts < maxAttempts" and n: "n = maxAttempts - (attempts + 1)" by auto
  from Suc.prems lt have here: "\<not> terminal_reply (server sent)" by simp
  have later: "\<forall>i. sent + 1 \<le> i \<and> i < sent + 1 + (maxAttempts - (attempts + 1)) \<longrightarrow>
      \<not> terminal_reply (server i)"
    using Suc.prems lt by auto
  note IH = Suc.hyps(1) [OF n later]
  show ?case
  proof (cases "maxAttempts \<le> attempts + 1")
    case True
    with lt have last: "maxAttempts = attempts + 1" by simp
    then have after: "poll_loop server fid maxAttempts (attempts + 1) (sent + 1) =
        (timed_out fid, sent + 1)"
      by (subst poll_loop.simps) simp
    from here last after show ?thesis
      by (subst poll_loop.simps) (cases "server sent"; simp)
  next
    case False
    then have more: "attempts + 1 < maxAttempts" by simp
    then have idx: "sent + 1 + (maxAttempts - (attempts + 1)) - 1 = sent + (maxAttempts - attempts) - 1"
      "sent + 1 + (maxAttempts - (attempts + 1)) = sent + (maxAttempts - attempts)"
      by simp_all
    have step: "poll_loop server fid maxAttempts attempts sent =
        poll_loop server fid maxAttempts (attempts + 1) (sent + 1)"
      using here lt more by (subst poll_loop.simps) (cases "server sent"; simp)
    show ?thesis unfolding step IH idx using more lt by simp
  qed
qed

lemma status_after_fileId:
  "map_of (AList.update ''fileId'' fid payload) ''status'' = map_of payload ''status''"
  by (simp add: update_conv')

lemma error_results_status:
  "map_of (timed_out fid) ''status'' = Some ''error''"
  "map_of (max_attempts_after_error fid) ''status'' = Some ''error''"
  by (simp_all add: timed_out_def max_attempts_after_error_def)

text \<open>
  Claim C9. For an upload that is not a text file: if the status endpoint answers 404
  to the first \<open>k\<close> requests and then with a completed payload, and \<open>k\<close> is below the
  maximum number of attempts, then \<^const>\<open>pollForResults\<close> issues exactly \<open>k + 1\<close>
  requests and returns the payload with the file id set, so its status is completed;
  for \<open>k = 2\<close> these are exactly 3 requests. If none of the first \<open>maxAttempts\<close>
  replies is terminal, exactly \<open>maxAttempts\<close> requests are issued and the result is
  an error result: the timeout result, unless the last request itself failed; and it is
  the timeout result when all replies are 404.
\<close>

theorem poll_retries_then_completes:
  "((\<forall>i<k. server i = NotOk 404) \<and> server k = OkJson payload \<and>
      map_of payload ''status'' = Some ''completed'' \<and> k < maxAttempts \<longrightarrow>
      pollForResults server fid False maxAttempts = (AList.update ''fileId'' fid payload, k + 1) \<and>
      map_of (fst (pollForResults server fid False maxAttempts)) ''status'' = Some ''completed'') \<and>
   (server 0 = NotOk 404 \<and> server 1 = NotOk 404 \<and> server 2 = OkJson payload \<and>
      map_of payload ''status'' = Some ''completed'' \<and> 2 < maxAttempts \<longrightarrow>
      pollForResults server fid False maxAttempts = (AList.update ''fileId'' fid payload, 3)) \<and>
   ((\<forall>i<maxAttempts. \<not> terminal_reply (server i)) \<longrightarrow>
      snd (pollForResults server fid False maxAttempts) = maxAttempts \<and>
      map_of (fst (pollForResults server fid False maxAttempts)) ''status'' = Some ''error'' \<and>
      fst (pollForResults server fid False maxAttempts) =
        (if 0 < maxAttempts \<and> server (maxAttempts - 1) = Throws
         then max_attempts_after_error fid else timed_out fid)) \<and>
   ((\<forall>i<maxAttempts. server i = NotOk 404) \<longrightarrow>
      pollForResults server fid False maxAttempts = (timed_out fid, maxAttempts))"
proof -
  have general: "pollForResults server fid False maxAttempts =
      (AList.update ''fileId'' fid payload, k + 1)"
    if a: "\<forall>i<k. server i = NotOk 404" "server k = OkJson payload"
      "map_of payload ''status'' = Some ''completed''" "k < maxAttempts"
    for k
  proof -
    from a(1,4) have "poll_loop server fid maxAttempts 0 0 =
        poll_loop server fid maxAttempts (0 + k) (0 + k)"
      by (intro poll_loop_404s) simp_all
    also from a(2,3,4) have "\<dots> = (AList.update ''fileId'' fid payload, k + 1)"
      by (simp add: poll_loop_terminal)
    finally show ?thesis by (simp add: pollForResults_def)
  qed
  have exhausted: "pollForResults server fid False maxAttempts =
      (if 0 < maxAttempts \<and> server (maxAttempts - 1) = Throws
       then max_attempts_after_error fid else timed_out fid, maxAttempts)"
    if "\<forall>i<maxAttempts. \<not> terminal_reply (server i)"
    using poll_loop_exhausted [of 0 maxAttempts 0 server fid] that
    by (simp add: pollForResults_def)
  have part1: "(\<forall>i<k. server i = NotOk 404) \<and> server k = OkJson payload \<and>
      map_of payload ''status'' = Some ''completed'' \<and> k < maxAttempts \<longrightarrow>
      pollForResults server fid False maxAttempts = (AList.update ''fileId'' fid payload, k + 1) \<and>
      map_of (fst (pollForResults server fid False maxAttempts)) ''status'' = Some ''completed''"
    using general [of k] by (simp add: status_after_fileId)
  have part2: "server 0 = NotOk 404 \<and> server 1 = NotOk 404 \<and> server 2 = OkJson payload \<and>
      map_of payload ''status'' = Some ''completed'' \<and> 2 < maxAttempts \<longrightarrow>
      pollForResults server fid False maxAttempts = (AList.update ''fileId'' fid payload, 3)"
  proof
    assume h: "server 0 = NotOk 404 \<and> server 1 = NotOk 404 \<and> server 2 = OkJson payload \<and>
      map_of payload ''status'' = Some ''completed'' \<and> 2 < maxAttempts"
    then have "\<forall>i<2. server i = NotOk 404" by (auto simp: less_Suc_eq numeral_2_eq_2)
    with h general [of 2] show "pollForResults server fid False maxAttempts =
        (AList.update ''fileId'' fid payload, 3)"
      by simp
  qed
  have part3: "(\<forall>i<maxAttempts. \<not> terminal_reply (server i)) \<longrightarrow>
      snd (pollForResults server fid False maxAttempts) = maxAttempts \<and>
      map_of (fst (pollForResults server fid False maxAttempts)) ''status'' = Some ''error'' \<and>
      fst (pollForResults server fid False maxAttempts) =
        (if 0 < maxAttempts \<and> server (maxAttempts - 1) = Throws
         then max_attempts_after_error fid else timed_out fid)"
    using exhausted by (simp add: error_results_status)
  have part4: "(\<forall>i<maxAttempts. server i = NotOk 404) \<longrightarrow>
      pollForResults server fid False maxAttempts = (timed_out fid, maxAttempts)"
  proof
    assume h: "\<forall>i<maxAttempts. server i = NotOk 404"
    then have "\<forall>i<maxAttempts. \<not> terminal_reply (server i)" by simp
    from exhausted [OF this] h show "pollForResults server fid False maxAttempts =
        (timed_out fid, maxAttempts)"
      by (cases "0 < maxAttempts") simp_all
  qed
  from part1 part2 part3 part4 show ?thesis by blast
qed

theorem poll_retries_then_completes_witness:
  "pollForResults late_status_endpoint ''42'' False 30 =
     ([(''status'', ''completed''), (''textContent'', ''Hello''), (''fileId'', ''42'')], 3) \<and>
   pollForResults missing_status_endpoint ''42'' False 30 = (timed_out ''42'', 30)"
proof -
  have late: "late_status_endpoint 0 = NotOk 404 \<and> late_status_endpoint 1 = NotOk 404 \<and>
      late_status_endpoint 2 = OkJson [(''status'', ''completed''), (''textContent'', ''Hello'')] \<and>
      map_of [(''status'', ''completed''), (''textContent'', ''Hello'')] ''status'' = Some ''completed'' \<and>
      (2::nat) < 30"
    by (simp add: late_status_endpoint_def)
  have missing: "\<forall>i<30. missing_status_endpoint i = NotOk 404"
    by (simp add: missing_status_endpoint_def)
  from poll_retries_then_completes [of 2 late_status_endpoint
      "[(''status'', ''completed''), (''textContent'', ''Hello'')]" 30 "''42''"] late
  have a: "pollForResults late_status_endpoint ''42'' False 30 =
      (AList.update ''fileId'' ''42'' [(''status'', ''completed''), (''textContent'', ''Hello'')], 3)"
    by blast
  from poll_retries_then_completes [of 0 missing_status_endpoint "[]" 30 "''42''"] missing
  have b: "pollForResults missing_status_endpoint ''42'' False 30 = (timed_out ''42'', 30)"
    by blast
  from a b show ?thesis by simp
qed

subsection \<open>Draining the local queue\<close>

lemma mark_completed_fields:
  "meta_status (mark_completed io res m) = ''completed'' \<and>
   meta_error (mark_completed io res m) = None \<and>
   meta_serverFileId (mark_completed io res m) = ur_fileId res"
  by (simp add: mark_completed_def Let_def split: option.splits result_text.splits)

lemma mark_error_fields:
  "meta_status (mark_error res m) = ''error'' \<and>
   meta_error (mark_error res m) = Some (or_default (ur_error res) ''Unknown processing error'') \<and>
   meta_lastAttempt (mark_error res m) = meta_lastAttempt m"
  by (simp add: mark_error_def)

lemma drain_error:
  assumes q: "sync_queue dev = Stored (localId # rest)"
      and item: "pending_uploads dev localId = Some item"
      and meta: "metadata_json item = Stored metadata"
      and notdone: "meta_status metadata \<noteq> ''completed''"
      and content: "content_txt item \<noteq> None \<or> content_names item \<noteq> []"
      and wr: "write_ok io"
      and out: "outcome (handleFileProcess io (queued_shared_file io localId item metadata) token)
                  = Inr res"
      and st: "ur_status res = ''error''"
  shows "processSyncQueue io token dev =
      (True,
       dev\<lparr>pending_uploads := (pending_uploads dev)(localId \<mapsto> item\<lparr>metadata_json := Stored
               (mark_error res
                 ((foldl on_status metadata
                    (progress (handleFileProcess io
                       (queued_shared_file io localId item metadata) token)))
                  \<lparr>meta_lastAttempt := Some (clock_iso io)\<rparr>))\<rparr>),
           sync_queue := Stored (rest @ [localId])\<rparr>)"
  using assms
  by (auto simp: processSyncQueue_def Let_def write_metadata_def write_queue_def)

lemma drain_thrown:
  assumes q: "sync_queue dev = Stored (localId # rest)"
      and item: "pending_uploads dev localId = Some item"
      and meta: "metadata_json item = Stored metadata"
      and notdone: "meta_status metadata \<noteq> ''completed''"
      and content: "content_txt item \<noteq> None \<or> content_names item \<noteq> []"
      and wr: "write_ok io"
      and out: "outcome (handleFileProcess io (queued_shared_file io localId item metadata) token)
                  = Inl e"
  shows "processSyncQueue io token dev =
      (True,
       dev\<lparr>pending_uploads := (pending_uploads dev)(localId \<mapsto> item\<lparr>metadata_json := Stored
               ((foldl on_status metadata
                    (progress (handleFileProcess io
                       (queued_shared_file io localId item metadata) token)))
                  \<lparr>meta_status := ''error'',
                   meta_error := Some (case e of ErrorObj msg \<Rightarrow> msg
                                       | _ \<Rightarrow> ''Critical processing error''),
                   meta_lastAttempt := Some (clock_iso io)\<rparr>)\<rparr>),
           sync_queue := Stored (rest @ [localId])\<rparr>)"
  using assms
  by (auto simp: processSyncQueue_def Let_def write_metadata_def write_queue_def
      critical_error_def)

lemma drain_completed:
  assumes q: "sync_queue dev = Stored (localId # rest)"
      and item: "pending_uploads dev localId = Some item"
      and meta: "metadata_json item = Stored metadata"
      and notdone: "meta_status metadata \<noteq> ''completed''"
      and content: "content_txt item \<noteq> None \<or> content_names item \<noteq> []"
      and wr: "write_ok io"
      and out: "outcome (handleFileProcess io (queued_shared_file io localId item metadata) token)
                  = Inr res"
      and st: "ur_status res = ''completed''"
  shows "processSyncQueue io token dev =
      (rest \<noteq> [],
       dev\<lparr>pending_uploads := (pending_uploads dev)(localId \<mapsto> item\<lparr>metadata_json := Stored
               (mark_completed io res
                 ((foldl on_status metadata
                    (progress (handleFileProcess io
                       (queued_shared_file io localId item metadata) token)))
                  \<lparr>meta_lastAttempt := Some (clock_iso io)\<rparr>))\<rparr>),
           sync_queue := Stored rest\<rparr>)"
  using assms
  by (auto simp: processSyncQueue_def Let_def write_metadata_def write_queue_def)

text \<open>
  Claim C7. Let the queue be non-empty, let its head have a directory with readable
  metadata that is not yet completed and with a content file, so that an upload is
  attempted, and let writes to the device succeed. If the upload returns status
  \<open>error\<close>, or throws, then \<^const>\<open>processSyncQueue\<close> writes the head's metadata with
  status \<open>error\<close>, the reason and the time of the attempt, moves the head to the end of
  the queue, and leaves everything else on the device as it was. If the upload returns
  status \<open>completed\<close>, it writes the metadata with status \<open>completed\<close> and no error and
  removes the head from the queue.
\<close>

theorem drain_failure_moves_to_tail:
  assumes q: "sync_queue dev = Stored (localId # rest)"
      and item: "pending_uploads dev localId = Some item"
      and meta: "metadata_json item = Stored metadata"
      and notdone: "meta_status metadata \<noteq> ''completed''"
      and content: "content_txt item \<noteq> None \<or> content_names item \<noteq> []"
      and wr: "write_ok io"
  shows "(\<forall>res. outcome (handleFileProcess io (queued_shared_file io localId item metadata) token)
                  = Inr res \<and> ur_status res = ''error'' \<longrightarrow>
            (\<exists>m. processSyncQueue io token dev =
                   (True, dev\<lparr>pending_uploads :=
                                (pending_uploads dev)(localId \<mapsto> item\<lparr>metadata_json := Stored m\<rparr>),
                              sync_queue := Stored (rest @ [localId])\<rparr>) \<and>
                 meta_status m = ''error'' \<and>
                 meta_error m = Some (or_default (ur_error res) ''Unknown processing error'') \<and>
                 meta_lastAttempt m = Some (clock_iso io))) \<and>
         (\<forall>e. outcome (handleFileProcess io (queued_shared_file io localId item metadata) token)
                  = Inl e \<longrightarrow>
            (\<exists>m. processSyncQueue io token dev =
                   (True, dev\<lparr>pending_uploads :=
                                (pending_uploads dev)(localId \<mapsto> item\<lparr>metadata_json := Stored m\<rparr>),
                              sync_queue := Stored (rest @ [localId])\<rparr>) \<and>
                 meta_status m = ''error'' \<and>
                 meta_error m = Some (case e of ErrorObj msg \<Rightarrow> msg
                                      | _ \<Rightarrow> ''Critical processing error'') \<and>
                 meta_lastAttempt m = Some (clock_iso io))) \<and>
         (\<forall>res. outcome (handleFileProcess io (queued_shared_file io localId item metadata) token)
                  = Inr res \<and> ur_status res = ''completed'' \<longrightarrow>
            (\<exists>m. processSyncQueue io token dev =
                   (rest \<noteq> [], dev\<lparr>pending_uploads :=
                                (pending_uploads dev)(localId \<mapsto> item\<lparr>metadata_json := Stored m\<rparr>),
                              sync_queue := Stored rest\<rparr>) \<and>
                 meta_status m = ''completed'' \<and> meta_error m = None))"
proof (intro conjI allI impI)
  fix res
  assume "outcome (handleFileProcess io (queued_shared_file io localId item metadata) token)
            = Inr res \<and> ur_status res = ''error''"
  then have out: "outcome (handleFileProcess io (queued_shared_file io localId item metadata) token)
            = Inr res" and st: "ur_status res = ''error''"
    by simp_all
  note eq = drain_error [OF q item meta notdone content wr out st]
  show "\<exists>m. processSyncQueue io token dev =
                   (True, dev\<lparr>pending_uploads :=
                                (pending_uploads dev)(localId \<mapsto> item\<lparr>metadata_json := Stored m\<rparr>),
                              sync_queue := Stored (rest @ [localId])\<rparr>) \<and>
                 meta_status m = ''error'' \<and>
                 meta_error m = Some (or_default (ur_error res) ''Unknown processing error'') \<and>
                 meta_lastAttempt m = Some (clock_iso io)"
    by (rule exI, rule conjI, rule eq) (simp add: mark_error_fields)
next
  fix e
  assume out: "outcome (handleFileProcess io (queued_shared_file io localId item metadata) token)
            = Inl e"
  note eq = drain_thrown [OF q item meta notdone content wr out]
  show "\<exists>m. processSyncQueue io token dev =
                   (True, dev\<lparr>pending_uploads :=
                                (pending_uploads dev)(localId \<mapsto> item\<lparr>metadata_json := Stored m\<rparr>),
                              sync_queue := Stored (rest @ [localId])\<rparr>) \<and>
                 meta_status m = ''error'' \<and>
                 meta_error m = Some (case e of ErrorObj msg \<Rightarrow> msg
                                      | _ \<Rightarrow> ''Critical processing error'') \<and>
                 meta_lastAttempt m = Some (clock_iso io)"
    by (rule exI, rule conjI, rule eq) simp
next
  fix res
  assume "outcome (handleFileProcess io (queued_shared_file io localId item metadata) token)
            = Inr res \<and> ur_status res = ''completed''"
  then have out: "outcome (handleFileProcess io (queued_shared_file io localId item metadata) token)
            = Inr res" and st: "ur_status res = ''completed''"
    by simp_all
  note eq = drain_completed [OF q item meta notdone content wr out st]
  show "\<exists>m. processSyncQueue io token dev =
                   (rest \<noteq> [], dev\<lparr>pending_uploads :=
                                (pending_uploads dev)(localId \<mapsto> item\<lparr>metadata_json := Stored m\<rparr>),
                              sync_queue := Stored rest\<rparr>) \<and>
                 meta_status m = ''completed'' \<and> meta_error m = None"
    by (rule exI, rule conjI, rule eq) (simp add: mark_completed_fields)
qed

theorem drain_failure_moves_to_tail_witness:
  "fst (processSyncQueue failing_upload ''token'' two_queued) \<and>
   sync_queue (snd (processSyncQueue failing_upload ''token'' two_queued)) =
     Stored [''local-2'', ''local-1''] \<and>
   sync_queue (snd (processSyncQueue completing_upload ''token'' two_queued)) =
     Stored [''local-2'']"
proof -
  have q: "sync_queue two_queued = Stored (''local-1'' # [''local-2''])"
    by (simp add: two_queued_def)
  have item: "pending_uploads two_queued ''local-1'' = Some saved_note"
    by (simp add: two_queued_def)
  define metadata where "metadata =
    \<lparr>meta_name = Some ''note.txt'', meta_mimeType = Some ''text/plain'',
      meta_status = ''pending'', meta_error = None, meta_lastAttempt = None,
      meta_serverFileId = None, meta_processedTextPreview = None,
      meta_processedAt = None\<rparr>"
  have meta: "metadata_json saved_note = Stored metadata"
    by (simp add: saved_note_def metadata_def)
  have notdone: "meta_status metadata \<noteq> ''completed''"
    by (simp add: metadata_def)
  have content: "content_txt saved_note \<noteq> None \<or> content_names saved_note \<noteq> []"
    by (simp add: saved_note_def)
  have wr: "write_ok failing_upload" "write_ok completing_upload"
    by (simp_all add: completing_upload_def failing_upload_def)
  have fails: "outcome (handleFileProcess failing_upload
        (queued_shared_file failing_upload ''local-1'' saved_note metadata) ''token'') =
      Inr \<lparr>ur_status = ''error'', ur_text = None,
           ur_error = Some ''Network request failed'', ur_fileId = None\<rparr> \<and>
      ur_status \<lparr>ur_status = ''error'', ur_text = None,
           ur_error = Some ''Network request failed'', ur_fileId = None\<rparr> = ''error''"
    by (simp add: failing_upload_def)
  have completes: "outcome (handleFileProcess completing_upload
        (queued_shared_file completing_upload ''local-1'' saved_note metadata) ''token'') =
      Inr \<lparr>ur_status = ''completed'', ur_text = Some (TextString ''Buy milk''),
           ur_error = None, ur_fileId = Some ''42''\<rparr> \<and>
      ur_status \<lparr>ur_status = ''completed'', ur_text = Some (TextString ''Buy milk''),
           ur_error = None, ur_fileId = Some ''42''\<rparr> = ''completed''"
    by (simp add: completing_upload_def failing_upload_def)
  from drain_failure_moves_to_tail [OF q item meta notdone content wr(1), of "''token''"] fails
  obtain m1 where a: "processSyncQueue failing_upload ''token'' two_queued =
      (True, two_queued\<lparr>pending_uploads :=
                (pending_uploads two_queued)(''local-1'' \<mapsto> saved_note\<lparr>metadata_json := Stored m1\<rparr>),
              sync_queue := Stored ([''local-2''] @ [''local-1''])\<rparr>)"
    by blast
  from drain_failure_moves_to_tail [OF q item meta notdone content wr(2), of "''token''"] completes
  obtain m2 where b: "processSyncQueue completing_upload ''token'' two_queued =
      ([''local-2''] \<noteq> [], two_queued\<lparr>pending_uploads :=
                (pending_uploads two_queued)(''local-1'' \<mapsto> saved_note\<lparr>metadata_json := Stored m2\<rparr>),
              sync_queue := Stored [''local-2'']\<rparr>)"
    by blast
  show ?thesis unfolding a b by simp
qed

subsection \<open>The content of terminal records\<close>

































end
